theory Spec2Isabelle
  imports Complex_Main "HOL-Library.AList" "HOL-Library.Sublist"
begin

section \<open>Python values\<close>

text \<open>
  The validation engine and the error recovery system of ARQV30 work on loosely typed
  analysis records: nested dictionaries and lists with strings and numbers at the leaves.
  A record that is only read is a tree of type \<open>pyval\<close>. Dictionary keys are strings and a
  dictionary is an association list in insertion order (a well-formed one has distinct
  keys). A string is the list of its code points, each below 256 (Latin-1 covers every
  literal of the source). Python floats are idealised as exact rationals (no rounding, no
  overflow of a division).
\<close>

text \<open>
  The exceptions are those \<open>except Exception\<close> catches; the built-in ones the core can
  raise by name, those of the collaborators by their text.
\<close>

datatype py_exn =
  AttributeError | TypeError | ValueError | KeyError | ImportError | OtherException string

datatype pyval =
  PNone
  | PBool bool
  | PInt int
  | PFloat rat
  | PStr string
  | PList "pyval list"
  | PDict "(string \<times> pyval) list"

text \<open>
  An f-string is kept as its pieces, the interpolated values not yet rendered: Python's
  \<open>str()\<close> of a float or of an exception is outside the model.
\<close>

datatype piece = Txt string | Shown pyval | ShownExn py_exn

type_synonym fstring = "piece list"

text \<open>\<open>bool(v)\<close>: the truth value of a Python value.\<close>

fun truthy :: "pyval \<Rightarrow> bool" where
  "truthy PNone = False"
| "truthy (PBool b) = b"
| "truthy (PInt n) = (n \<noteq> 0)"
| "truthy (PFloat q) = (q \<noteq> 0)"
| "truthy (PStr s) = (s \<noteq> [])"
| "truthy (PList xs) = (xs \<noteq> [])"
| "truthy (PDict m) = (m \<noteq> [])"

text \<open>\<open>a or b\<close> returns \<open>a\<close> when it is truthy and \<open>b\<close> otherwise.\<close>

definition py_or :: "pyval \<Rightarrow> pyval \<Rightarrow> pyval" where
  "py_or a b = (if truthy a then a else b)"

text \<open>\<open>d.get(k, default)\<close>: only a dictionary has the method.\<close>

fun py_get :: "pyval \<Rightarrow> string \<Rightarrow> pyval \<Rightarrow> py_exn + pyval" where
  "py_get (PDict m) k dflt = Inr (case map_of m k of Some v \<Rightarrow> v | None \<Rightarrow> dflt)"
| "py_get _ k dflt = Inl AttributeError"

text \<open>\<open>len(v)\<close>: strings, lists and dictionaries have a length, nothing else has.\<close>

fun py_len :: "pyval \<Rightarrow> py_exn + nat" where
  "py_len (PStr s) = Inr (length s)"
| "py_len (PList xs) = Inr (length xs)"
| "py_len (PDict m) = Inr (length m)"
| "py_len _ = Inl TypeError"

text \<open>
  \<open>for x in v\<close>: a list yields its items, a dictionary its keys, a string its
  characters.
\<close>

fun py_iter :: "pyval \<Rightarrow> py_exn + pyval list" where
  "py_iter (PList xs) = Inr xs"
| "py_iter (PDict m) = Inr (map (\<lambda>(k, v). PStr k) m)"
| "py_iter (PStr s) = Inr (map (\<lambda>c. PStr [c]) s)"
| "py_iter _ = Inl TypeError"

text \<open>
  \<open>k in v\<close> for a string \<open>k\<close>: key membership in a dictionary, an equal item in a
  list, a substring of a string.
\<close>

fun py_in :: "string \<Rightarrow> pyval \<Rightarrow> py_exn + bool" where
  "py_in k (PDict m) = Inr (k \<in> set (map fst m))"
| "py_in k (PList xs) = Inr (PStr k \<in> set xs)"
| "py_in k (PStr s) = Inr (sublist k s)"
| "py_in k _ = Inl TypeError"

text \<open>The numeric value of a number; \<open>bool\<close> is a subclass of \<open>int\<close>.\<close>

fun py_num :: "pyval \<Rightarrow> rat option" where
  "py_num (PInt n) = Some (of_int n)"
| "py_num (PFloat q) = Some q"
| "py_num (PBool b) = Some (if b then 1 else 0)"
| "py_num _ = None"

text \<open>\<open>v > n\<close> against an integer literal: a number compares, anything else raises
  \<open>TypeError\<close> (and so does \<open>v < n\<close>).\<close>

definition py_gt :: "pyval \<Rightarrow> int \<Rightarrow> py_exn + bool" where
  "py_gt v n = (case py_num v of Some q \<Rightarrow> Inr (q > of_int n) | None \<Rightarrow> Inl TypeError)"

text \<open>\<open>s.lower()\<close> on Latin-1 code points.\<close>

definition lower_char :: "char \<Rightarrow> char" where
  "lower_char c =
     (let n = (of_char c :: nat)
      in if (65 \<le> n \<and> n \<le> 90) \<or> (192 \<le> n \<and> n \<le> 222 \<and> n \<noteq> 215) then char_of (n + 32) else c)"

definition lower :: "string \<Rightarrow> string" where
  "lower s = map lower_char s"

text \<open>
  \<open>int(s)\<close> of a string: surrounding whitespace is stripped, a sign may come first, then
  decimal digits, single underscores allowed between digits. \<open>None\<close> stands for the
  \<open>ValueError\<close>. (The interpreter's limit on the number of digits is not modelled.)
\<close>

definition is_py_space :: "char \<Rightarrow> bool" where
  "is_py_space c = ((of_char c :: nat) \<in> set [9, 10, 11, 12, 13, 28, 29, 30, 31, 32, 133, 160])"

definition py_strip :: "string \<Rightarrow> string" where
  "py_strip s = rev (dropWhile is_py_space (rev (dropWhile is_py_space s)))"

definition is_digit :: "char \<Rightarrow> bool" where
  "is_digit c = (48 \<le> (of_char c :: nat) \<and> (of_char c :: nat) \<le> 57)"

definition digit_val :: "char \<Rightarrow> nat" where
  "digit_val c = of_char c - 48"

fun py_digits :: "string \<Rightarrow> nat \<Rightarrow> nat option" where
  "py_digits [] acc = Some acc"
| "py_digits [c] acc = (if is_digit c then Some (acc * 10 + digit_val c) else None)"
| "py_digits (c # d # cs) acc =
     (if is_digit c then py_digits (d # cs) (acc * 10 + digit_val c)
      else if c = CHR ''_'' \<and> is_digit d then py_digits (d # cs) acc
      else None)"

definition py_int_of_str :: "string \<Rightarrow> int option" where
  "py_int_of_str s =
     (let t = py_strip s;
          negative = (t \<noteq> [] \<and> hd t = CHR ''-'');
          body = (if t \<noteq> [] \<and> (hd t = CHR ''-'' \<or> hd t = CHR ''+'') then tl t else t)
      in if body \<noteq> [] \<and> is_digit (hd body)
         then map_option (\<lambda>n. if negative then - int n else int n) (py_digits body 0)
         else None)"

section \<open>Validation engine\<close>

text \<open>
  A component validation and the aggregate result, as the dictionaries of
  \<open>validation_engine.py\<close> have them. The \<open>metrics\<close> mapping of a component validation
  (the counts, among them the drivers with boilerplate text) is bookkeeping that nothing
  reads back but \<open>emocoes_intensas\<close> (kept as a local of the forensic validator); it is
  left out, the operations that fill it and can raise (\<open>len\<close>) are kept where they stand.
\<close>

record issues =
  critical_issues :: "fstring list"
  warnings :: "fstring list"

record validation = issues +
  valid :: bool
  score :: rat

record validation_result = issues +
  overall_valid :: bool
  quality_score :: rat
  component_validations :: "(string \<times> validation) list"
  recommendations :: "fstring list"
  scientific_compliance :: bool
  validated_at :: string

definition new_validation :: validation where
  "new_validation = \<lparr>critical_issues = [], warnings = [], valid = False, score = 0\<rparr>"

definition add_critical :: "fstring \<Rightarrow> 'a issues_scheme \<Rightarrow> 'a issues_scheme" where
  "add_critical msg v = v\<lparr>critical_issues := critical_issues v @ [msg]\<rparr>"

definition add_warning :: "fstring \<Rightarrow> 'a issues_scheme \<Rightarrow> 'a issues_scheme" where
  "add_warning msg v = v\<lparr>warnings := warnings v @ [msg]\<rparr>"

text \<open>
  The handler of a validator's \<open>try\<close>: the exception becomes one more critical issue of
  the validation as it stands (score and \<open>valid\<close> are assigned last, so they still have
  their initial values).
\<close>

definition on_error :: "string \<Rightarrow> py_exn \<Rightarrow> validation \<Rightarrow> validation" where
  "on_error label e v = add_critical [Txt label, ShownExn e] v"

definition dict_get :: "(string \<times> pyval) list \<Rightarrow> string \<Rightarrow> pyval \<Rightarrow> pyval" where
  "dict_get m k dflt = (case map_of m k of Some v \<Rightarrow> v | None \<Rightarrow> dflt)"

subsection \<open>Mental drivers\<close>

text \<open>The quality check of one driver: \<open>nome and definicao and len(definicao) > 50\<close>.\<close>

definition driver_is_valid :: "pyval \<Rightarrow> py_exn + bool" where
  "driver_is_valid driver =
     (case driver of
        PDict m \<Rightarrow>
          (let nome = dict_get m ''nome'' (PStr []);
               definicao = dict_get m ''definicao_visceral'' (PStr [])
           in if truthy nome \<and> truthy definicao
              then (case py_len definicao of Inl e \<Rightarrow> Inl e | Inr n \<Rightarrow> Inr (n > 50))
              else Inr False)
      | _ \<Rightarrow> Inr False)"

fun count_valid_drivers :: "pyval list \<Rightarrow> nat \<Rightarrow> py_exn + nat" where
  "count_valid_drivers [] valid_drivers = Inr valid_drivers"
| "count_valid_drivers (driver # rest) valid_drivers =
     (case driver_is_valid driver of
        Inl e \<Rightarrow> Inl e
      | Inr ok \<Rightarrow> count_valid_drivers rest (if ok then valid_drivers + 1 else valid_drivers))"

definition drivers_error :: string where
  "drivers_error = ''Erro na valida'' @ [CHR 0xE7, CHR 0xE3] @ ''o de drivers: ''"

definition mental_drivers_score :: "nat \<Rightarrow> nat \<Rightarrow> rat" where
  "mental_drivers_score driver_count valid_drivers =
     (let quality_ratio = (if driver_count > 0 then of_nat valid_drivers / of_nat driver_count else 0);
          quantity_score = min (of_nat driver_count / 19 * 100) 100;
          quality_score = quality_ratio * 100
      in (quantity_score + quality_score) / 2)"

definition validate_mental_drivers :: "pyval \<Rightarrow> pyval \<Rightarrow> py_exn + validation" where
  "validate_mental_drivers drivers_data full_analysis =
     (case py_get drivers_data ''drivers_customizados'' (PList []) of
        Inl e \<Rightarrow> Inr (on_error drivers_error e new_validation)
      | Inr drivers_list \<Rightarrow>
          if \<not> truthy drivers_list
          then Inr (add_critical [Txt ''Nenhum driver mental encontrado''] new_validation)
          else
            (case py_len drivers_list of
               Inl e \<Rightarrow> Inr (on_error drivers_error e new_validation)
             | Inr driver_count \<Rightarrow>
                 (let v1 =
                    (if driver_count < 5
                     then add_critical
                            [Txt ''Drivers insuficientes: '', Shown (PInt (int driver_count)),
                             Txt ('' < 5 m'' @ [CHR 0xED] @ ''nimo'')] new_validation
                     else if driver_count < 19
                     then add_warning
                            [Txt ''Drivers abaixo do ideal: '', Shown (PInt (int driver_count)),
                             Txt '' < 19 recomendado''] new_validation
                     else new_validation)
                  in case py_iter drivers_list of
                       Inl e \<Rightarrow> Inr (on_error drivers_error e v1)
                     | Inr items \<Rightarrow>
                         (case count_valid_drivers items 0 of
                            Inl e \<Rightarrow> Inr (on_error drivers_error e v1)
                          | Inr valid_drivers \<Rightarrow>
                              (let sc = mental_drivers_score driver_count valid_drivers
                               in Inr (v1\<lparr>score := sc,
                                          valid := (sc \<ge> 60 \<and> length (critical_issues v1) = 0)\<rparr>))))))"

subsection \<open>Visual proofs\<close>

definition provi_is_valid :: "pyval \<Rightarrow> bool" where
  "provi_is_valid provi =
     (case provi of
        PDict m \<Rightarrow>
          (let nome = dict_get m ''nome'' (PStr []);
               experimento = py_or (dict_get m ''experimento'' (PStr []))
                                   (dict_get m ''experimento_escolhido'' (PStr []))
           in truthy nome \<and> truthy experimento)
      | _ \<Rightarrow> False)"

definition provi_is_complete :: "pyval \<Rightarrow> bool" where
  "provi_is_complete provi =
     (case provi of
        PDict m \<Rightarrow>
          provi_is_valid provi
          \<and> truthy (dict_get m ''roteiro_completo'' PNone) \<and> truthy (dict_get m ''materiais'' PNone)
      | _ \<Rightarrow> False)"

definition provis_error :: string where
  "provis_error = ''Erro na valida'' @ [CHR 0xE7, CHR 0xE3] @ ''o de PROVIs: ''"

definition visual_proofs_score :: "nat \<Rightarrow> nat \<Rightarrow> nat \<Rightarrow> rat" where
  "visual_proofs_score n valid_provis complete_provis =
     (let quantity_score = (if n \<ge> 5 then 100 else if n \<ge> 3 then 80 else of_nat n * 20);
          quality_score = (if n \<noteq> 0 then of_nat valid_provis / of_nat n * 100 else 0);
          completeness_score = (if n \<noteq> 0 then of_nat complete_provis / of_nat n * 100 else 0)
      in (quantity_score + quality_score + completeness_score) / 3)"

definition validate_visual_proofs :: "pyval \<Rightarrow> pyval \<Rightarrow> py_exn + validation" where
  "validate_visual_proofs proofs_data full_analysis =
     (let provis_list =
        (case proofs_data of
           PList xs \<Rightarrow> PList xs
         | PDict m \<Rightarrow>
             py_or (py_or (dict_get m ''arsenal_provis_completo'' (PList []))
                          (dict_get m ''provas_visuais'' (PList [])))
                   (dict_get m ''visual_proofs'' (PList []))
         | _ \<Rightarrow> PList [])
      in case py_len provis_list of
           Inl e \<Rightarrow> Inr (on_error provis_error e new_validation)
         | Inr n \<Rightarrow>
             if \<not> truthy provis_list
             then Inr (add_critical [Txt ''Nenhuma PROVI encontrada''] new_validation)
             else
               (case py_iter provis_list of
                  Inl e \<Rightarrow> Inr (on_error provis_error e new_validation)
                | Inr items \<Rightarrow>
                    (let valid_provis = length (filter provi_is_valid items);
                         complete_provis = length (filter provi_is_complete items);
                         sc = visual_proofs_score n valid_provis complete_provis
                     in Inr (new_validation\<lparr>score := sc,
                               valid := (sc \<ge> 70 \<and> length (critical_issues new_validation) = 0)\<rparr>))))"

subsection \<open>Anti-objection system\<close>

text \<open>\<open>[req for req in required_universals if req not in universais]\<close>.\<close>

fun missing_keys :: "string list \<Rightarrow> pyval \<Rightarrow> py_exn + string list" where
  "missing_keys [] universais = Inr []"
| "missing_keys (req # reqs) universais =
     (case py_in req universais of
        Inl e \<Rightarrow> Inl e
      | Inr present \<Rightarrow>
          (case missing_keys reqs universais of
             Inl e \<Rightarrow> Inl e
           | Inr ms \<Rightarrow> Inr (if present then ms else req # ms)))"

definition required_universals :: "string list" where
  "required_universals = [''tempo'', ''dinheiro'', ''confianca'']"

definition anti_objection_error :: string where
  "anti_objection_error =
     ''Erro na valida'' @ [CHR 0xE7, CHR 0xE3] @ ''o anti-obje'' @ [CHR 0xE7, CHR 0xE3] @ ''o: ''"

definition anti_objection_score :: "nat \<Rightarrow> nat \<Rightarrow> nat \<Rightarrow> rat" where
  "anti_objection_score universais_count scripts_count arsenal_count =
     (let coverage_score = (if universais_count \<le> 3 then of_nat universais_count / 3 * 100 else 100);
          scripts_score = min (of_nat scripts_count / 3 * 100) 100;
          arsenal_score = min (of_nat arsenal_count / 8 * 100) 100
      in (coverage_score + scripts_score + arsenal_score) / 3)"

definition validate_anti_objection :: "pyval \<Rightarrow> pyval \<Rightarrow> py_exn + validation" where
  "validate_anti_objection anti_obj_data full_analysis =
     (case py_get anti_obj_data ''objecoes_universais'' (PDict []) of
        Inl e \<Rightarrow> Inr (on_error anti_objection_error e new_validation)
      | Inr universais \<Rightarrow>
     (case py_len universais of
        Inl e \<Rightarrow> Inr (on_error anti_objection_error e new_validation)
      | Inr universais_count \<Rightarrow>
     (case missing_keys required_universals universais of
        Inl e \<Rightarrow> Inr (on_error anti_objection_error e new_validation)
      | Inr missing_universals \<Rightarrow>
     (let v1 =
        (if missing_universals \<noteq> []
         then add_critical
                [Txt (''Obje'' @ [CHR 0xE7, CHR 0xF5] @ ''es universais ausentes: ''),
                 Shown (PList (map PStr missing_universals))] new_validation
         else new_validation)
      in
     (case py_get anti_obj_data ''scripts_personalizados'' (PDict []) of
        Inl e \<Rightarrow> Inr (on_error anti_objection_error e v1)
      | Inr scripts \<Rightarrow>
     (case py_len scripts of
        Inl e \<Rightarrow> Inr (on_error anti_objection_error e v1)
      | Inr scripts_count \<Rightarrow>
     (let v2 =
        (if \<not> truthy scripts then add_critical [Txt ''Scripts personalizados ausentes''] v1 else v1)
      in
     (case py_get anti_obj_data ''arsenal_emergencia'' (PList []) of
        Inl e \<Rightarrow> Inr (on_error anti_objection_error e v2)
      | Inr arsenal \<Rightarrow>
     (case py_len arsenal of
        Inl e \<Rightarrow> Inr (on_error anti_objection_error e v2)
      | Inr arsenal_count \<Rightarrow>
     (let v3 =
        (if arsenal_count < 5
         then add_warning
                [Txt (''Arsenal de emerg'' @ [CHR 0xEA] @ ''ncia limitado: ''),
                 Shown (PInt (int arsenal_count)), Txt '' < 5''] v2
         else v2);
          sc = anti_objection_score universais_count scripts_count arsenal_count
      in Inr (v3\<lparr>score := sc, valid := (sc \<ge> 70 \<and> length (critical_issues v3) = 0)\<rparr>)))))))))))"

subsection \<open>Avatar\<close>

definition avatar_error :: string where
  "avatar_error = ''Erro na valida'' @ [CHR 0xE7, CHR 0xE3] @ ''o do avatar: ''"

definition avatar_score :: "nat \<Rightarrow> nat \<Rightarrow> nat \<Rightarrow> nat \<Rightarrow> rat" where
  "avatar_score dores_count desejos_count demografico_fields psicografico_fields =
     (let dores_score = min (of_nat dores_count / 15 * 100) 100;
          desejos_score = min (of_nat desejos_count / 15 * 100) 100;
          demografico_score = min (of_nat demografico_fields / 7 * 100) 100;
          psicografico_score = min (of_nat psicografico_fields / 8 * 100) 100
      in (dores_score + desejos_score + demografico_score + psicografico_score) / 4)"

text \<open>\<open>data.get(k1, []) or data.get(k2, [])\<close>.\<close>

definition get_or_get :: "pyval \<Rightarrow> string \<Rightarrow> string \<Rightarrow> py_exn + pyval" where
  "get_or_get avatar_data k1 k2 =
     (case py_get avatar_data k1 (PList []) of
        Inl e \<Rightarrow> Inl e
      | Inr a \<Rightarrow>
          if truthy a then Inr a
          else (case py_get avatar_data k2 (PList []) of Inl e \<Rightarrow> Inl e | Inr b \<Rightarrow> Inr b))"

definition validate_avatar :: "pyval \<Rightarrow> pyval \<Rightarrow> py_exn + validation" where
  "validate_avatar avatar_data full_analysis =
     (case get_or_get avatar_data ''dores_viscerais'' ''feridas_abertas_inconfessaveis'' of
        Inl e \<Rightarrow> Inr (on_error avatar_error e new_validation)
      | Inr dores \<Rightarrow>
     (case py_len dores of
        Inl e \<Rightarrow> Inr (on_error avatar_error e new_validation)
      | Inr dores_count \<Rightarrow>
     (let v1 =
        (if dores_count < 5
         then add_critical [Txt ''Dores insuficientes: '', Shown (PInt (int dores_count)), Txt '' < 5'']
                new_validation
         else new_validation)
      in
     (case get_or_get avatar_data ''desejos_secretos'' ''sonhos_proibidos_ardentes'' of
        Inl e \<Rightarrow> Inr (on_error avatar_error e v1)
      | Inr desejos \<Rightarrow>
     (case py_len desejos of
        Inl e \<Rightarrow> Inr (on_error avatar_error e v1)
      | Inr desejos_count \<Rightarrow>
     (let v2 =
        (if desejos_count < 5
         then add_critical [Txt ''Desejos insuficientes: '', Shown (PInt (int desejos_count)), Txt '' < 5''] v1
         else v1)
      in
     (case py_get avatar_data ''perfil_demografico'' (PDict []) of
        Inl e \<Rightarrow> Inr (on_error avatar_error e v2)
      | Inr demografico \<Rightarrow>
     (case py_len demografico of
        Inl e \<Rightarrow> Inr (on_error avatar_error e v2)
      | Inr demografico_fields \<Rightarrow>
     (let v3 =
        (if demografico_fields < 3
         then add_warning [Txt (''Perfil demogr'' @ [CHR 0xE1] @ ''fico limitado'')] v2
         else v2)
      in
     (case py_get avatar_data ''perfil_psicografico'' (PDict []) of
        Inl e \<Rightarrow> Inr (on_error avatar_error e v3)
      | Inr psicografico \<Rightarrow>
     (case py_len psicografico of
        Inl e \<Rightarrow> Inr (on_error avatar_error e v3)
      | Inr psicografico_fields \<Rightarrow>
     (let v4 =
        (if psicografico_fields < 3
         then add_warning [Txt (''Perfil psicogr'' @ [CHR 0xE1] @ ''fico limitado'')] v3
         else v3);
          sc = avatar_score dores_count desejos_count demografico_fields psicografico_fields
      in Inr (v4\<lparr>score := sc, valid := (sc \<ge> 70 \<and> length (critical_issues v4) = 0)\<rparr>)))))))))))))"

subsection \<open>Forensic metrics\<close>

text \<open>\<open>sum(1 for count in cialdini.values() if count > 0)\<close>.\<close>

fun count_activated :: "pyval list \<Rightarrow> nat \<Rightarrow> py_exn + nat" where
  "count_activated [] n = Inr n"
| "count_activated (c # cs) n =
     (case py_gt c 0 of
        Inl e \<Rightarrow> Inl e
      | Inr positive \<Rightarrow> count_activated cs (if positive then n + 1 else n))"

definition dict_values :: "pyval \<Rightarrow> py_exn + pyval list" where
  "dict_values d = (case d of PDict m \<Rightarrow> Inr (map snd m) | _ \<Rightarrow> Inl AttributeError)"

text \<open>
  The number read from one emotional-intensity value, \<open>None\<close> when the inner \<open>try\<close> of
  the loop catches an exception. The value is an integer or a string like \<open>8/10\<close>:
  \<open>int(str(valor).split('/')[0])\<close> when \<open>str(valor)\<close> has a slash, \<open>int(valor)\<close> otherwise.
  Of a list or a dictionary the text before a slash starts with a bracket, and \<open>int\<close>
  takes neither of them, nor \<open>None\<close>: each raises. \<open>int\<close> of a float truncates towards
  zero.
\<close>

definition emotion_value :: "pyval \<Rightarrow> int option" where
  "emotion_value valor =
     (case valor of
        PStr s \<Rightarrow>
          (if CHR ''/'' \<in> set s then py_int_of_str (takeWhile (\<lambda>c. c \<noteq> CHR ''/'') s)
           else py_int_of_str s)
      | PInt n \<Rightarrow> Some n
      | PBool b \<Rightarrow> Some (if b then 1 else 0)
      | PFloat q \<Rightarrow> Some (if q \<ge> 0 then \<lfloor>q\<rfloor> else \<lceil>q\<rceil>)
      | _ \<Rightarrow> None)"

definition emotion_is_intense :: "pyval \<Rightarrow> bool" where
  "emotion_is_intense valor = (case emotion_value valor of Some num_valor \<Rightarrow> num_valor \<ge> 7 | None \<Rightarrow> False)"

definition forensic_error :: string where
  "forensic_error = ''Erro na valida'' @ [CHR 0xE7, CHR 0xE3] @ ''o de m'' @ [CHR 0xE9] @ ''tricas: ''"

definition forensic_score :: "rat \<Rightarrow> nat \<Rightarrow> nat \<Rightarrow> rat" where
  "forensic_score argumentos_totais cialdini_ativados emocoes_intensas =
     (let argumentos_score = min (argumentos_totais / 20 * 100) 100;
          cialdini_score = min (of_nat cialdini_ativados / 6 * 100) 100;
          intensidade_score = min (of_nat emocoes_intensas / 4 * 100) 100
      in (argumentos_score + cialdini_score + intensidade_score) / 3)"

definition validate_forensic_metrics :: "pyval \<Rightarrow> pyval \<Rightarrow> py_exn + validation" where
  "validate_forensic_metrics metrics_data full_analysis =
     (case py_get metrics_data ''densidade_persuasiva'' (PDict []) of
        Inl e \<Rightarrow> Inr (on_error forensic_error e new_validation)
      | Inr densidade \<Rightarrow>
     if \<not> truthy densidade
     then Inr (add_critical [Txt ''Densidade persuasiva ausente''] new_validation)
     else
     (case py_get densidade ''argumentos_totais'' (PInt 0) of
        Inl e \<Rightarrow> Inr (on_error forensic_error e new_validation)
      | Inr argumentos_totais \<Rightarrow>
     (case py_num argumentos_totais of
        None \<Rightarrow> Inr (on_error forensic_error TypeError new_validation)
      | Some argumentos \<Rightarrow>
     (let v1 =
        (if argumentos < 10
         then add_critical [Txt ''Argumentos insuficientes: '', Shown argumentos_totais, Txt '' < 10'']
                new_validation
         else new_validation)
      in
     (case py_get densidade ''gatilhos_cialdini'' (PDict []) of
        Inl e \<Rightarrow> Inr (on_error forensic_error e v1)
      | Inr cialdini \<Rightarrow>
     (case dict_values cialdini of
        Inl e \<Rightarrow> Inr (on_error forensic_error e v1)
      | Inr counts \<Rightarrow>
     (case count_activated counts 0 of
        Inl e \<Rightarrow> Inr (on_error forensic_error e v1)
      | Inr cialdini_ativados \<Rightarrow>
     (let v2 =
        (if cialdini_ativados < 3
         then add_critical
                [Txt ''Gatilhos de Cialdini insuficientes: '', Shown (PInt (int cialdini_ativados)),
                 Txt '' < 3''] v1
         else v1)
      in
     (case py_get metrics_data ''intensidade_emocional'' (PDict []) of
        Inl e \<Rightarrow> Inr (on_error forensic_error e v2)
      | Inr intensidade \<Rightarrow>
     (case (if truthy intensidade then dict_values intensidade else Inr []) of
        Inl e \<Rightarrow> Inr (on_error forensic_error e v2)
      | Inr valores \<Rightarrow>
     (let emocoes_validas = length (filter emotion_is_intense valores);
          v3 =
        (if truthy intensidade \<and> emocoes_validas < 2
         then add_warning
                [Txt ''Intensidade emocional baixa: '', Shown (PInt (int emocoes_validas)),
                 Txt ('' emo'' @ [CHR 0xE7, CHR 0xF5] @ ''es >= 7/10'')] v2
         else v2);
          emocoes_intensas = (if truthy intensidade then emocoes_validas else 0);
          sc = forensic_score argumentos cialdini_ativados emocoes_intensas
      in Inr (v3\<lparr>score := sc, valid := (sc \<ge> 60 \<and> length (critical_issues v3) = 0)\<rparr>))))))))))))"

subsection \<open>The aggregator\<close>

definition get_component_weight :: "string \<Rightarrow> rat" where
  "get_component_weight component_name =
     (case map_of
        [(''drivers_mentais'', 25 / 100), (''provas_visuais'', 20 / 100),
         (''sistema_anti_objecao'', 20 / 100), (''avatar_ultra_detalhado'', 20 / 100),
         (''metricas_forenses'', 15 / 100)] component_name of
        Some w \<Rightarrow> w
      | None \<Rightarrow> 1 / 10)"

type_synonym validator = "pyval \<Rightarrow> pyval \<Rightarrow> py_exn + validation"

definition validation_rules :: "(string \<times> validator) list" where
  "validation_rules =
     [(''drivers_mentais'', validate_mental_drivers),
      (''provas_visuais'', validate_visual_proofs),
      (''sistema_anti_objecao'', validate_anti_objection),
      (''avatar_ultra_detalhado'', validate_avatar),
      (''metricas_forenses'', validate_forensic_metrics)]"

definition validation_failure :: "string \<Rightarrow> py_exn \<Rightarrow> fstring" where
  "validation_failure component_name e =
     [Txt (''Falha na valida'' @ [CHR 0xE7, CHR 0xE3] @ ''o de ''), Txt component_name, Txt '': '', ShownExn e]"

text \<open>
  The loop over \<open>validation_rules\<close>, with its running \<open>total_score\<close> and \<open>max_score\<close>. The
  body is a \<open>try\<close>: an exception of the lookup or of the validator becomes a critical
  issue of the aggregate and the component adds nothing to either sum.
\<close>

fun validate_components ::
  "(string \<times> validator) list \<Rightarrow> pyval \<Rightarrow> rat \<times> rat \<times> validation_result \<Rightarrow> rat \<times> rat \<times> validation_result"
where
  "validate_components [] analysis_data st = st"
| "validate_components ((component_name, validator) # rules) analysis_data (total_score, max_score, vr) =
     validate_components rules analysis_data
       (case py_get analysis_data component_name (PDict []) of
          Inl e \<Rightarrow> (total_score, max_score, add_critical (validation_failure component_name e) vr)
        | Inr component_data \<Rightarrow>
            (case validator component_data analysis_data of
               Inl e \<Rightarrow> (total_score, max_score, add_critical (validation_failure component_name e) vr)
             | Inr component_validation \<Rightarrow>
                 (let weight = get_component_weight component_name
                  in (total_score + score component_validation * weight,
                      max_score + 100 * weight,
                      vr\<lparr>component_validations :=
                            AList.update component_name component_validation (component_validations vr),
                          critical_issues := critical_issues vr @ critical_issues component_validation,
                          warnings := warnings vr @ warnings component_validation\<rparr>))))"

definition check_scientific_compliance :: "pyval \<Rightarrow> py_exn + bool" where
  "check_scientific_compliance analysis_data =
     (case py_get analysis_data ''pesquisa_web_massiva'' (PDict []) of
        Inl e \<Rightarrow> Inl e
      | Inr pesquisa_data \<Rightarrow>
     if \<not> truthy pesquisa_data then Inr False
     else
     (case py_get pesquisa_data ''search_results'' PNone of
        Inl e \<Rightarrow> Inl e
      | Inr search_results \<Rightarrow>
     if \<not> truthy search_results then Inr False
     else
     (case py_get analysis_data ''metricas_forenses_detalhadas'' PNone of
        Inl e \<Rightarrow> Inl e
      | Inr metricas \<Rightarrow>
     (case py_get analysis_data ''metadata'' (PDict []) of
        Inl e \<Rightarrow> Inl e
      | Inr metadata \<Rightarrow>
     (case py_get metadata ''quality_score'' PNone of
        Inl e \<Rightarrow> Inl e
      | Inr q \<Rightarrow> Inr (truthy metricas \<and> truthy q))))))"

definition generate_recommendations :: "validation_result \<Rightarrow> fstring list" where
  "generate_recommendations validation_result =
     (if quality_score validation_result < 80
      then [[Txt (''Melhore a qualidade geral da an'' @ [CHR 0xE1] @ ''lise configurando mais APIs'')]]
      else [])
     @ (if critical_issues validation_result \<noteq> []
        then [[Txt (''Resolva os issues cr'' @ [CHR 0xED] @ ''ticos identificados antes de usar a an''
                    @ [CHR 0xE1] @ ''lise'')]]
        else [])
     @ (if \<not> scientific_compliance validation_result
        then [[Txt (''Adicione mais fontes cient'' @ [CHR 0xED] @ ''ficas e dados quantitativos'')]]
        else [])
     @ map (\<lambda>(component, v). [Txt ''Melhore a qualidade do componente '', Txt component])
           (filter (\<lambda>(component, v). score v < 70) (component_validations validation_result))"

text \<open>
  \<open>validate_complete_analysis\<close>, over any table of validators; \<open>now_iso\<close> is
  \<open>datetime.now().isoformat()\<close>. The compliance check runs outside every \<open>try\<close>: what it
  raises leaves the function.
\<close>

definition validate_with :: "(string \<times> validator) list \<Rightarrow> string \<Rightarrow> pyval \<Rightarrow> py_exn + validation_result" where
  "validate_with rules now_iso analysis_data =
     (let validation_result0 =
            \<lparr>critical_issues = [], warnings = [], overall_valid = False, quality_score = 0,
             component_validations = [], recommendations = [], scientific_compliance = False,
             validated_at = now_iso\<rparr>;
          (total_score, max_score, r1) = validate_components rules analysis_data (0, 0, validation_result0);
          q = (if max_score > 0 then total_score / max_score * 100 else 0);
          r2 = r1\<lparr>quality_score := q\<rparr>;
          r3 = r2\<lparr>overall_valid := (quality_score r2 \<ge> 80 \<and> length (critical_issues r2) = 0)\<rparr>
      in case check_scientific_compliance analysis_data of
           Inl e \<Rightarrow> Inl e
         | Inr compliant \<Rightarrow>
             (let r4 = r3\<lparr>scientific_compliance := compliant\<rparr>
              in Inr (r4\<lparr>recommendations := generate_recommendations r4\<rparr>)))"

definition validate_complete_analysis :: "string \<Rightarrow> pyval \<Rightarrow> py_exn + validation_result" where
  "validate_complete_analysis now_iso analysis_data = validate_with validation_rules now_iso analysis_data"

subsection \<open>Readings used to state properties\<close>

text \<open>
  The three lengths the anti-objection validator reads, \<open>None\<close> when one of the reads
  raises.
\<close>

definition anti_objection_counts :: "pyval \<Rightarrow> (nat \<times> nat \<times> nat) option" where
  "anti_objection_counts anti_obj_data =
     (case py_get anti_obj_data ''objecoes_universais'' (PDict []) of
        Inl e \<Rightarrow> None
      | Inr universais \<Rightarrow>
     (case py_len universais of
        Inl e \<Rightarrow> None
      | Inr universais_count \<Rightarrow>
     (case py_get anti_obj_data ''scripts_personalizados'' (PDict []) of
        Inl e \<Rightarrow> None
      | Inr scripts \<Rightarrow>
     (case py_len scripts of
        Inl e \<Rightarrow> None
      | Inr scripts_count \<Rightarrow>
     (case py_get anti_obj_data ''arsenal_emergencia'' (PList []) of
        Inl e \<Rightarrow> None
      | Inr arsenal \<Rightarrow>
     (case py_len arsenal of
        Inl e \<Rightarrow> None
      | Inr arsenal_count \<Rightarrow> Some (universais_count, scripts_count, arsenal_count)))))))"

text \<open>
  The anti-objection score as the specification words it: the coverage sub-score counts
  the required universals that are present.
\<close>

definition anti_objection_score_as_specified :: "pyval \<Rightarrow> rat" where
  "anti_objection_score_as_specified anti_obj_data =
     (case anti_objection_counts anti_obj_data of
        None \<Rightarrow> 0
      | Some (universais_count, scripts_count, arsenal_count) \<Rightarrow>
          (let universais = (case py_get anti_obj_data ''objecoes_universais'' (PDict []) of
                               Inr u \<Rightarrow> u | Inl e \<Rightarrow> PDict []);
               count_present = length (filter (\<lambda>req. py_in req universais = Inr True) required_universals);
               coverage_score = min (of_nat count_present / 3 * 100) 100;
               scripts_score = min (of_nat scripts_count / 3 * 100) 100;
               arsenal_score = min (of_nat arsenal_count / 8 * 100) 100
           in (coverage_score + scripts_score + arsenal_score) / 3))"

text \<open>
  The caller-supplied \<open>argumentos_totais\<close> as the forensic validator reads it, when it is
  a number.
\<close>

definition argumentos_totais_of :: "pyval \<Rightarrow> rat option" where
  "argumentos_totais_of metrics_data =
     (case py_get metrics_data ''densidade_persuasiva'' (PDict []) of
        Inl e \<Rightarrow> None
      | Inr densidade \<Rightarrow>
          (case py_get densidade ''argumentos_totais'' (PInt 0) of
             Inl e \<Rightarrow> None
           | Inr argumentos_totais \<Rightarrow> py_num argumentos_totais))"

definition argumentos_negative :: "pyval \<Rightarrow> bool" where
  "argumentos_negative metrics_data =
     (case argumentos_totais_of metrics_data of Some q \<Rightarrow> q < 0 | None \<Rightarrow> False)"

section \<open>Error recovery: the classifier\<close>

text \<open>
  \<open>_identify_recovery_strategy\<close>: ordered substring rules on the error's message and on
  the name of the failing component, the first match wins. \<open>component_name\<close> is optional
  (\<open>None\<close> by default in \<open>recover_from_error\<close>).
\<close>

definition identify_recovery_strategy :: "string \<Rightarrow> string \<Rightarrow> string option \<Rightarrow> string option" where
  "identify_recovery_strategy error_str error_type component_name =
     (if sublist '''AIManager' object has no attribute'' error_str then Some ''ai_manager_fallback''
      else if sublist ''object has no attribute'' error_str then Some ''missing_method''
      else if sublist ''list indices must be integers'' error_str then Some ''invalid_data_structure''
      else if sublist ''takes'' error_str \<and> sublist ''positional arguments'' error_str
        then Some ''invalid_data_structure''
      else if (case component_name of
                 None \<Rightarrow> False
               | Some cn \<Rightarrow> cn \<noteq> [] \<and> list_ex (\<lambda>comp. sublist comp cn) [''driver'', ''visual'', ''anti_objection''])
        then Some ''component_failure''
      else if sublist ''validation'' (lower error_str) \<or> sublist ''invalid'' (lower error_str)
        then Some ''validation_failure''
      else None)"

section \<open>Error recovery: the strategies\<close>

text \<open>
  The error as the recovery system reads it: \<open>str(error)\<close> and \<open>type(error).__name__\<close>.
\<close>

record py_error =
  message :: string
  type_name :: string

text \<open>
  Modelled from the spec: the audit sink (\<open>salvar_erro\<close>, \<open>salvar_etapa\<close> of
  \<open>services.auto_save_manager\<close>) and the AI-provider gateway (\<open>services.ai_manager\<close>) are
  collaborators outside the repository's sources. Each is called at most once in one
  recovery, so the record holds the outcome of each call: the exception it raises, if
  any, and for the gateway the provider statuses (a mapping from provider name to status)
  and the generated text (\<open>None\<close> for a failure).
\<close>

record collaborators =
  salvar_erro :: "py_exn option"
  salvar_etapa :: "py_exn option"
  import_ai_manager :: "py_exn option"
  reset_provider_errors :: "py_exn option"
  get_provider_status :: "py_exn + (string \<times> string) list"
  generate_analysis :: "py_exn + string option"

text \<open>
  A recovery outcome keeps the two fields every outcome has, \<open>recovery_successful\<close> and
  \<open>method\<close>. The templated fallback content is not modelled; the operations that build
  it and can raise (\<open>context.get\<close>, \<open>segmento.upper()\<close>) are.
\<close>

record recovery_outcome =
  recovery_successful :: bool
  recovery_method :: string

type_synonym strategy = "py_error \<Rightarrow> pyval \<Rightarrow> string option \<Rightarrow> py_exn + recovery_outcome"

definition emergency_recovery :: strategy where
  "emergency_recovery error ctx component_name =
     Inr \<lparr>recovery_successful = False, recovery_method = ''emergency_recovery''\<rparr>"


text \<open>\<open>context.get('segmento', default)\<close>, read by every generator of fallback content.\<close>

definition segmento_of :: "pyval \<Rightarrow> py_exn + pyval" where
  "segmento_of ctx = py_get ctx ''segmento'' (PStr (''neg'' @ [CHR 0xF3] @ ''cios''))"

text \<open>\<open>_generate_ai_fallback_content\<close> calls \<open>segmento.upper()\<close>: only a string has it.\<close>

definition generate_ai_fallback_content :: "pyval \<Rightarrow> py_exn + unit" where
  "generate_ai_fallback_content ctx =
     (case segmento_of ctx of
        Inl e \<Rightarrow> Inl e
      | Inr segmento \<Rightarrow> (case segmento of PStr s \<Rightarrow> Inr () | _ \<Rightarrow> Inl AttributeError))"

text \<open>The first provider whose status is \<open>available\<close>.\<close>

fun first_available :: "(string \<times> string) list \<Rightarrow> string option" where
  "first_available [] = None"
| "first_available ((provider, status) # rest) =
     (if status = ''available'' then Some provider else first_available rest)"

definition ai_manager_fallback :: "pyval \<Rightarrow> py_exn + recovery_outcome" where
  "ai_manager_fallback ctx =
     (case generate_ai_fallback_content ctx of
        Inl e \<Rightarrow> Inl e
      | Inr u \<Rightarrow> Inr \<lparr>recovery_successful = False, recovery_method = ''ai_manager_fallback''\<rparr>)"

text \<open>The body of the \<open>try\<close> of \<open>_recover_ai_manager\<close>.\<close>

definition recover_ai_manager_try :: "collaborators \<Rightarrow> pyval \<Rightarrow> py_exn + recovery_outcome" where
  "recover_ai_manager_try w ctx =
     (case import_ai_manager w of
        Some e \<Rightarrow> Inl e
      | None \<Rightarrow>
     (case reset_provider_errors w of
        Some e \<Rightarrow> Inl e
      | None \<Rightarrow>
     (case get_provider_status w of
        Inl e \<Rightarrow> Inl e
      | Inr provider_status \<Rightarrow>
     (case first_available provider_status of
        None \<Rightarrow> ai_manager_fallback ctx
      | Some available_provider \<Rightarrow>
          if available_provider = [] then ai_manager_fallback ctx
          else
            (case segmento_of ctx of
               Inl e \<Rightarrow> Inl e
             | Inr segmento \<Rightarrow>
            (case generate_analysis w of
               Inl e \<Rightarrow> Inl e
             | Inr test_response \<Rightarrow>
                 if test_response \<noteq> None \<and> test_response \<noteq> Some []
                 then Inr \<lparr>recovery_successful = True, recovery_method = ''ai_manager_reset''\<rparr>
                 else ai_manager_fallback ctx))))))"

definition recover_ai_manager :: "collaborators \<Rightarrow> strategy" where
  "recover_ai_manager w error ctx component_name =
     (case recover_ai_manager_try w ctx of
        Inl e \<Rightarrow> emergency_recovery error ctx component_name
      | Inr r \<Rightarrow> Inr r)"

text \<open>
  \<open>re.search(r"'(\w+)' object has no attribute '(\w+)'", error_str)\<close>: the leftmost match.
  A run of word characters is followed by a quote, which is no word character, so only
  the longest run can match. \<open>\w\<close> is a letter, a digit or a numeric character of
  Latin-1, or the underscore.
\<close>

definition is_word_char :: "char \<Rightarrow> bool" where
  "is_word_char c =
     (let n = (of_char c :: nat)
      in (48 \<le> n \<and> n \<le> 57) \<or> (65 \<le> n \<and> n \<le> 90) \<or> n = 95 \<or> (97 \<le> n \<and> n \<le> 122)
         \<or> n \<in> set [170, 178, 179, 181, 185, 186, 188, 189, 190]
         \<or> (192 \<le> n \<and> n \<le> 214) \<or> (216 \<le> n \<and> n \<le> 246) \<or> (248 \<le> n \<and> n \<le> 255))"

definition no_attribute_infix :: string where
  "no_attribute_infix = CHR 0x27 # '' object has no attribute '' @ [CHR 0x27]"

definition match_no_attribute_at :: "string \<Rightarrow> (string \<times> string) option" where
  "match_no_attribute_at s =
     (case s of
        [] \<Rightarrow> None
      | c # rest \<Rightarrow>
          (let object_name = takeWhile is_word_char rest;
               r1 = dropWhile is_word_char rest;
               r2 = drop (length no_attribute_infix) r1;
               method_name = takeWhile is_word_char r2;
               r3 = dropWhile is_word_char r2
           in if c = CHR 0x27 \<and> object_name \<noteq> [] \<and> prefix no_attribute_infix r1
                 \<and> method_name \<noteq> [] \<and> r3 \<noteq> [] \<and> hd r3 = CHR 0x27
              then Some (object_name, method_name)
              else None))"

fun search_no_attribute :: "string \<Rightarrow> (string \<times> string) option" where
  "search_no_attribute [] = None"
| "search_no_attribute (c # cs) =
     (case match_no_attribute_at (c # cs) of
        Some m \<Rightarrow> Some m
      | None \<Rightarrow> search_no_attribute cs)"

definition recover_missing_method :: strategy where
  "recover_missing_method error ctx component_name =
     (case search_no_attribute (message error) of
        Some (object_name, method_name) \<Rightarrow>
          if method_name = ''_try_fallback''
          then Inr \<lparr>recovery_successful = True, recovery_method = ''add_missing_method''\<rparr>
          else if method_name = ''chat''
          then Inr \<lparr>recovery_successful = True, recovery_method = ''add_chat_interface''\<rparr>
          else Inr \<lparr>recovery_successful = False, recovery_method = ''missing_method_fallback''\<rparr>
      | None \<Rightarrow> Inr \<lparr>recovery_successful = False, recovery_method = ''missing_method_fallback''\<rparr>)"

text \<open>\<open>_normalize_data_structure\<close> wraps any value and raises on none.\<close>

definition recover_data_structure :: strategy where
  "recover_data_structure error ctx component_name =
     Inr \<lparr>recovery_successful = True, recovery_method = ''data_structure_normalization''\<rparr>"

text \<open>
  The body of the \<open>try\<close> of \<open>_recover_component_failure\<close>: the substring tests on
  \<open>component_name\<close> raise on \<open>None\<close>, and each of the four generators starts with
  \<open>context.get\<close>.
\<close>

definition recover_component_failure_try :: "pyval \<Rightarrow> string option \<Rightarrow> py_exn + recovery_outcome" where
  "recover_component_failure_try ctx component_name =
     (case component_name of
        None \<Rightarrow> Inl TypeError
      | Some cn \<Rightarrow>
          (case segmento_of ctx of
             Inl e \<Rightarrow> Inl e
           | Inr segmento \<Rightarrow> Inr \<lparr>recovery_successful = True, recovery_method = ''component_fallback''\<rparr>))"

definition recover_component_failure :: strategy where
  "recover_component_failure error ctx component_name =
     (case recover_component_failure_try ctx component_name of
        Inl e \<Rightarrow> emergency_recovery error ctx component_name
      | Inr r \<Rightarrow> Inr r)"

definition recover_validation_failure :: strategy where
  "recover_validation_failure error ctx component_name =
     Inr \<lparr>recovery_successful = True, recovery_method = ''validation_bypass''\<rparr>"




section \<open>The auto-fixer: records in a store\<close>

text \<open>
  \<open>auto_fix_common_errors\<close> mutates lists and dictionaries that the caller's record and the
  fixed record may share, so here a record lives in a store: a list or a dictionary is an
  object at an address, and a value is a scalar or a reference to an object. A new object
  is allocated at the end of the store. An object that nothing can reach as soon as it
  is built (an unused default of \<open>get\<close>, the argument of \<open>update\<close>) is not allocated.
\<close>

type_synonym addr = nat

datatype hval = HNone | HBool bool | HInt int | HFloat rat | HStr string | HRef addr

datatype obj = OList "hval list" | ODict "(string \<times> hval) list"

type_synonym store = "obj list"

definition deref :: "store \<Rightarrow> addr \<Rightarrow> obj option" where
  "deref h a = (if a < length h then Some (h ! a) else None)"

definition alloc :: "store \<Rightarrow> obj \<Rightarrow> store \<times> addr" where
  "alloc h ob = (h @ [ob], length h)"

text \<open>The object a value refers to, if it is a reference into the store.\<close>

definition obj_of :: "store \<Rightarrow> hval \<Rightarrow> obj option" where
  "obj_of h v = (case v of HRef a \<Rightarrow> deref h a | _ \<Rightarrow> None)"

text \<open>\<open>k in v\<close> for a string \<open>k\<close>.\<close>

definition h_contains :: "store \<Rightarrow> string \<Rightarrow> hval \<Rightarrow> py_exn + bool" where
  "h_contains h k v =
     (case v of
        HStr s \<Rightarrow> Inr (sublist k s)
      | HRef a \<Rightarrow>
          (case deref h a of
             Some (ODict m) \<Rightarrow> Inr (k \<in> set (map fst m))
           | Some (OList xs) \<Rightarrow> Inr (HStr k \<in> set xs)
           | None \<Rightarrow> Inl TypeError)
      | _ \<Rightarrow> Inl TypeError)"

text \<open>\<open>v[k]\<close> for a string \<open>k\<close>: a dictionary looks the key up, a list or a string wants an
  integer, nothing else is subscriptable.\<close>

definition h_getitem :: "store \<Rightarrow> hval \<Rightarrow> string \<Rightarrow> py_exn + hval" where
  "h_getitem h v k =
     (case obj_of h v of
        Some (ODict m) \<Rightarrow> (case map_of m k of Some x \<Rightarrow> Inr x | None \<Rightarrow> Inl KeyError)
      | _ \<Rightarrow> Inl TypeError)"

definition h_is_dict :: "store \<Rightarrow> hval \<Rightarrow> bool" where
  "h_is_dict h v = (case obj_of h v of Some (ODict m) \<Rightarrow> True | _ \<Rightarrow> False)"

definition h_len :: "store \<Rightarrow> hval \<Rightarrow> py_exn + nat" where
  "h_len h v =
     (case v of
        HStr s \<Rightarrow> Inr (length s)
      | HRef a \<Rightarrow>
          (case deref h a of
             Some (ODict m) \<Rightarrow> Inr (length m)
           | Some (OList xs) \<Rightarrow> Inr (length xs)
           | None \<Rightarrow> Inl TypeError)
      | _ \<Rightarrow> Inl TypeError)"

text \<open>
  The mutating operations return the exception, if one is raised, and the store as it is
  then. \<open>lst.append(x)\<close>: only a list has the method.
\<close>

definition h_append :: "store \<Rightarrow> hval \<Rightarrow> hval \<Rightarrow> py_exn option \<times> store" where
  "h_append h lst x =
     (case lst of
        HRef a \<Rightarrow>
          (case deref h a of
             Some (OList xs) \<Rightarrow> (None, h[a := OList (xs @ [x])])
           | _ \<Rightarrow> (Some AttributeError, h))
      | _ \<Rightarrow> (Some AttributeError, h))"

text \<open>\<open>d[k] = x\<close> for a string \<open>k\<close>.\<close>

definition h_setitem :: "store \<Rightarrow> hval \<Rightarrow> string \<Rightarrow> hval \<Rightarrow> py_exn option \<times> store" where
  "h_setitem h d k x =
     (case d of
        HRef a \<Rightarrow>
          (case deref h a of
             Some (ODict m) \<Rightarrow> (None, h[a := ODict (AList.update k x m)])
           | _ \<Rightarrow> (Some TypeError, h))
      | _ \<Rightarrow> (Some TypeError, h))"

text \<open>
  \<open>d.get(k, default)\<close> with a freshly built list or dictionary as the default: the
  default is allocated when it is the result.
\<close>

definition h_get_or_new :: "store \<Rightarrow> hval \<Rightarrow> string \<Rightarrow> obj \<Rightarrow> (py_exn + hval) \<times> store" where
  "h_get_or_new h d k dflt =
     (case obj_of h d of
        Some (ODict m) \<Rightarrow>
          (case map_of m k of
             Some x \<Rightarrow> (Inr x, h)
           | None \<Rightarrow> (let (h1, a) = alloc h dflt in (Inr (HRef a), h1)))
      | _ \<Rightarrow> (Inl AttributeError, h))"

definition h_values :: "store \<Rightarrow> hval \<Rightarrow> py_exn + hval list" where
  "h_values h d = (case obj_of h d of Some (ODict m) \<Rightarrow> Inr (map snd m) | _ \<Rightarrow> Inl AttributeError)"

text \<open>\<open>d.update({...})\<close>: the entries are stored in their order.\<close>

definition h_update :: "store \<Rightarrow> hval \<Rightarrow> (string \<times> hval) list \<Rightarrow> py_exn option \<times> store" where
  "h_update h d entries =
     (case d of
        HRef a \<Rightarrow>
          (case deref h a of
             Some (ODict m) \<Rightarrow> (None, h[a := ODict (fold (\<lambda>(k, x). AList.update k x) entries m)])
           | _ \<Rightarrow> (Some AttributeError, h))
      | _ \<Rightarrow> (Some AttributeError, h))"

text \<open>\<open>v.copy()\<close>: a shallow copy, the new object holds the same values and references.\<close>

definition h_copy :: "store \<Rightarrow> hval \<Rightarrow> py_exn + (store \<times> hval)" where
  "h_copy h v =
     (case obj_of h v of
        Some ob \<Rightarrow> (let (h1, a) = alloc h ob in Inr (h1, HRef a))
      | None \<Rightarrow> Inl AttributeError)"

text \<open>\<open>count == 0\<close>.\<close>

definition is_zero :: "hval \<Rightarrow> bool" where
  "is_zero v = (v = HInt 0 \<or> v = HFloat 0 \<or> v = HBool False)"

text \<open>The decimal digits of a number, as an f-string renders an \<open>int\<close>.\<close>

fun show_nat :: "nat \<Rightarrow> string" where
  "show_nat n = (if n < 10 then [char_of (48 + n)] else show_nat (n div 10) @ [char_of (48 + n mod 10)])"

declare show_nat.simps [simp del]

definition basic_driver :: "nat \<Rightarrow> (string \<times> hval) list" where
  "basic_driver n =
     [(''nome'', HStr (''Driver B'' @ [CHR 0xE1] @ ''sico '' @ show_nat n)),
      (''gatilho_central'', HStr (''Gatilho psicol'' @ [CHR 0xF3] @ ''gico'')),
      (''definicao_visceral'', HStr (''Defini'' @ [CHR 0xE7, CHR 0xE3] @ ''o b'' @ [CHR 0xE1] @ ''sica'')),
      (''auto_fixed'', HBool True)]"

definition basic_provi :: "nat \<Rightarrow> (string \<times> hval) list" where
  "basic_provi n =
     [(''nome'', HStr (''PROVI '' @ show_nat n @ '': Prova B'' @ [CHR 0xE1] @ ''sica'')),
      (''conceito_alvo'', HStr ''Conceito fundamental''),
      (''experimento_escolhido'',
         HStr (''Demonstra'' @ [CHR 0xE7, CHR 0xE3] @ ''o visual b'' @ [CHR 0xE1] @ ''sica'')),
      (''auto_fixed'', HBool True)]"

definition basic_cialdini :: "(string \<times> hval) list" where
  "basic_cialdini =
     [(''reciprocidade'', HInt 2), (''autoridade'', HInt 3), (''prova_social'', HInt 4),
      (''escassez'', HInt 1), (''compromisso'', HInt 2), (''afinidade'', HInt 3)]"

text \<open>
  \<open>lst.append({...})\<close>: the new dictionary is allocated and a reference to it appended.
  \<open>append\<close> is looked up before its argument is built: when it is missing nothing has
  been allocated.
\<close>

definition append_new :: "store \<Rightarrow> hval \<Rightarrow> obj \<Rightarrow> py_exn option \<times> store" where
  "append_new h lst ob =
     (let (h1, a) = alloc h ob
      in case h_append h1 lst (HRef a) of
           (Some e, h2) \<Rightarrow> (Some e, h)
         | (None, h2) \<Rightarrow> (None, h2))"

text \<open>
  \<open>while len(lst) < target: lst.append({...})\<close>, the appended dictionary built from the
  current length plus one. The loop ends: each round that does not raise makes the list
  one longer.
\<close>

function pad_to :: "nat \<Rightarrow> (nat \<Rightarrow> (string \<times> hval) list) \<Rightarrow> store \<Rightarrow> hval \<Rightarrow> py_exn option \<times> store" where
  "pad_to target filler h lst =
     (case h_len h lst of
        Inl e \<Rightarrow> (Some e, h)
      | Inr n \<Rightarrow>
          if n < target
          then (case append_new h lst (ODict (filler (n + 1))) of
                  (Some e, h1) \<Rightarrow> (Some e, h1)
                | (None, h1) \<Rightarrow> pad_to target filler h1 lst)
          else (None, h))"
  by pat_completeness auto
termination
  apply (relation "measure (\<lambda>(target, filler, h, lst). target - (case h_len h lst of Inr n \<Rightarrow> n | Inl e \<Rightarrow> 0))")
   apply simp
  apply (auto simp: append_new_def h_append_def h_len_def alloc_def deref_def nth_append
          split: hval.splits option.splits obj.splits if_splits)
  done

declare pad_to.simps [simp del]

text \<open>Fix 1: at least three drivers.\<close>

definition fix_drivers :: "store \<Rightarrow> hval \<Rightarrow> hval \<Rightarrow> py_exn option \<times> store" where
  "fix_drivers h fixed_data fixes_applied =
     (case h_contains h ''drivers_mentais_customizados'' fixed_data of
        Inl e \<Rightarrow> (Some e, h)
      | Inr False \<Rightarrow> (None, h)
      | Inr True \<Rightarrow>
     (case h_getitem h fixed_data ''drivers_mentais_customizados'' of
        Inl e \<Rightarrow> (Some e, h)
      | Inr drivers \<Rightarrow>
     if \<not> h_is_dict h drivers then (None, h)
     else
     (case h_contains h ''drivers_customizados'' drivers of
        Inl e \<Rightarrow> (Some e, h)
      | Inr False \<Rightarrow> (None, h)
      | Inr True \<Rightarrow>
     (case h_getitem h drivers ''drivers_customizados'' of
        Inl e \<Rightarrow> (Some e, h)
      | Inr drivers_list \<Rightarrow>
     (case h_len h drivers_list of
        Inl e \<Rightarrow> (Some e, h)
      | Inr n \<Rightarrow>
          if n < 3
          then (case pad_to 3 basic_driver h drivers_list of
                  (Some e, h1) \<Rightarrow> (Some e, h1)
                | (None, h1) \<Rightarrow> h_append h1 fixes_applied (HStr ''drivers_mentais_minimum''))
          else (None, h))))))"

text \<open>Fix 2: at least two visual proofs.\<close>

definition fix_provas :: "store \<Rightarrow> hval \<Rightarrow> hval \<Rightarrow> py_exn option \<times> store" where
  "fix_provas h fixed_data fixes_applied =
     (case h_contains h ''provas_visuais_arsenal'' fixed_data of
        Inl e \<Rightarrow> (Some e, h)
      | Inr False \<Rightarrow> (None, h)
      | Inr True \<Rightarrow>
     (case h_getitem h fixed_data ''provas_visuais_arsenal'' of
        Inl e \<Rightarrow> (Some e, h)
      | Inr provas \<Rightarrow>
     if \<not> h_is_dict h provas then (None, h)
     else
     (case h_get_or_new h provas ''arsenal_provis_completo'' (OList []) of
        (Inl e, h1) \<Rightarrow> (Some e, h1)
      | (Inr provas_list, h1) \<Rightarrow>
     (case h_len h1 provas_list of
        Inl e \<Rightarrow> (Some e, h1)
      | Inr n \<Rightarrow>
          if n < 2
          then (case pad_to 2 basic_provi h1 provas_list of
                  (Some e, h2) \<Rightarrow> (Some e, h2)
                | (None, h2) \<Rightarrow>
                    (case h_setitem h2 provas ''arsenal_provis_completo'' provas_list of
                       (Some e, h3) \<Rightarrow> (Some e, h3)
                     | (None, h3) \<Rightarrow> h_append h3 fixes_applied (HStr ''provas_visuais_minimum'')))
          else (None, h1)))))"

text \<open>Fix 3: Cialdini triggers that are all zero get the basic values.\<close>

definition fix_cialdini :: "store \<Rightarrow> hval \<Rightarrow> hval \<Rightarrow> py_exn option \<times> store" where
  "fix_cialdini h fixed_data fixes_applied =
     (case h_contains h ''metricas_forenses_detalhadas'' fixed_data of
        Inl e \<Rightarrow> (Some e, h)
      | Inr False \<Rightarrow> (None, h)
      | Inr True \<Rightarrow>
     (case h_getitem h fixed_data ''metricas_forenses_detalhadas'' of
        Inl e \<Rightarrow> (Some e, h)
      | Inr metricas \<Rightarrow>
     if \<not> h_is_dict h metricas then (None, h)
     else
     (case h_get_or_new h metricas ''densidade_persuasiva'' (ODict []) of
        (Inl e, h1) \<Rightarrow> (Some e, h1)
      | (Inr densidade, h1) \<Rightarrow>
     (case h_get_or_new h1 densidade ''gatilhos_cialdini'' (ODict []) of
        (Inl e, h2) \<Rightarrow> (Some e, h2)
      | (Inr cialdini, h2) \<Rightarrow>
     (case h_values h2 cialdini of
        Inl e \<Rightarrow> (Some e, h2)
      | Inr counts \<Rightarrow>
          if list_all is_zero counts
          then (case h_update h2 cialdini basic_cialdini of
                  (Some e, h3) \<Rightarrow> (Some e, h3)
                | (None, h3) \<Rightarrow> h_append h3 fixes_applied (HStr ''cialdini_triggers_basic''))
          else (None, h2))))))"

text \<open>
  Fix 4: metadata when there is none. The new dictionary holds the list \<open>fixes_applied\<close>
  itself, not a copy of it.
\<close>

definition fix_metadata :: "string \<Rightarrow> store \<Rightarrow> hval \<Rightarrow> hval \<Rightarrow> py_exn option \<times> store" where
  "fix_metadata now_iso h fixed_data fixes_applied =
     (case h_contains h ''metadata'' fixed_data of
        Inl e \<Rightarrow> (Some e, h)
      | Inr True \<Rightarrow> (None, h)
      | Inr False \<Rightarrow>
          (let (h1, metadata) =
                 alloc h (ODict [(''auto_fixed'', HBool True), (''fixes_applied'', fixes_applied),
                                 (''fixed_at'', HStr now_iso), (''quality_score'', HFloat 75),
                                 (''validation_status'', HStr ''auto_fixed'')])
           in case h_setitem h1 fixed_data ''metadata'' (HRef metadata) of
                (Some e, h2) \<Rightarrow> (Some e, h2)
              | (None, h2) \<Rightarrow> h_append h2 fixes_applied (HStr ''metadata_added'')))"

text \<open>
  The two dictionaries \<open>auto_fix_common_errors\<close> returns: on success the list of fixes, the
  fixed record and the number of fixes; on an exception the error and the record the
  caller passed, as \<open>original_data\<close>.
\<close>

datatype auto_fix_result =
  AutoFixed hval hval nat
  | AutoFixFailed py_exn hval

definition auto_fix_successful :: "auto_fix_result \<Rightarrow> bool" where
  "auto_fix_successful r = (case r of AutoFixed fixes fixed n \<Rightarrow> True | AutoFixFailed e original \<Rightarrow> False)"

text \<open>The body of the \<open>try\<close>: the four fixes in their order, then the length of the list.\<close>

definition auto_fix_try :: "string \<Rightarrow> store \<Rightarrow> hval \<Rightarrow> hval \<Rightarrow> (py_exn + nat) \<times> store" where
  "auto_fix_try now_iso h fixed_data fixes_applied =
     (case fix_drivers h fixed_data fixes_applied of
        (Some e, h1) \<Rightarrow> (Inl e, h1)
      | (None, h1) \<Rightarrow>
     (case fix_provas h1 fixed_data fixes_applied of
        (Some e, h2) \<Rightarrow> (Inl e, h2)
      | (None, h2) \<Rightarrow>
     (case fix_cialdini h2 fixed_data fixes_applied of
        (Some e, h3) \<Rightarrow> (Inl e, h3)
      | (None, h3) \<Rightarrow>
     (case fix_metadata now_iso h3 fixed_data fixes_applied of
        (Some e, h4) \<Rightarrow> (Inl e, h4)
      | (None, h4) \<Rightarrow> (h_len h4 fixes_applied, h4)))))"

text \<open>
  \<open>auto_fix_common_errors\<close>. The copy is made before the \<open>try\<close>: on a value that has no
  \<open>copy\<close> method the exception leaves the function. The result comes with the store the
  call leaves behind.
\<close>

definition auto_fix_common_errors :: "string \<Rightarrow> store \<Rightarrow> hval \<Rightarrow> py_exn + (auto_fix_result \<times> store)" where
  "auto_fix_common_errors now_iso h analysis_data =
     (case h_copy h analysis_data of
        Inl e \<Rightarrow> Inl e
      | Inr (h1, fixed_data) \<Rightarrow>
          (let (h2, fixes) = alloc h1 (OList []);
               fixes_applied = HRef fixes
           in case auto_fix_try now_iso h2 fixed_data fixes_applied of
                (Inl e, h3) \<Rightarrow> Inr (AutoFixFailed e analysis_data, h3)
              | (Inr original_issues, h3) \<Rightarrow> Inr (AutoFixed fixes_applied fixed_data original_issues, h3)))"

text \<open>
  Reading a record back from the store as a tree, to compare what the caller sees before
  and after a call. The depth is bounded, so a cyclic or dangling reference reads as
  \<open>None\<close>.
\<close>

fun read_back :: "nat \<Rightarrow> store \<Rightarrow> hval \<Rightarrow> pyval option" where
  "read_back depth h HNone = Some PNone"
| "read_back depth h (HBool b) = Some (PBool b)"
| "read_back depth h (HInt n) = Some (PInt n)"
| "read_back depth h (HFloat q) = Some (PFloat q)"
| "read_back depth h (HStr s) = Some (PStr s)"
| "read_back 0 h (HRef a) = None"
| "read_back (Suc depth) h (HRef a) =
     (case deref h a of
        None \<Rightarrow> None
      | Some (OList xs) \<Rightarrow> map_option PList (those (map (read_back depth h) xs))
      | Some (ODict m) \<Rightarrow>
          map_option PDict (those (map (\<lambda>(k, v). map_option (Pair k) (read_back depth h v)) m)))"





section \<open>Properties of the classifier\<close>

lemma generic_pattern_in_ai_manager_pattern:
  "sublist ''object has no attribute'' '''AIManager' object has no attribute''"
  by code_simp

text \<open>
  C7. An error whose message contains \<open>'AIManager' object has no attribute\<close> is classified
  as \<open>ai_manager_fallback\<close> and never as \<open>missing_method\<close>, although the message also
  contains the generic \<open>object has no attribute\<close> of the second rule: the rules are ordered
  and the first match wins.
\<close>

theorem ai_manager_rule_precedes_missing_method:
  assumes "sublist '''AIManager' object has no attribute'' error_str"
  shows "identify_recovery_strategy error_str error_type component_name = Some ''ai_manager_fallback''
    \<and> identify_recovery_strategy error_str error_type component_name \<noteq> Some ''missing_method''
    \<and> sublist ''object has no attribute'' error_str"
proof -
  have first: "identify_recovery_strategy error_str error_type component_name = Some ''ai_manager_fallback''"
    using assms by (simp add: identify_recovery_strategy_def)
  have generic: "sublist ''object has no attribute'' error_str"
    using generic_pattern_in_ai_manager_pattern assms by (rule sublist_order.order_trans)
  from first generic show ?thesis by simp
qed

theorem ai_manager_rule_precedes_missing_method_witness:
  "sublist '''AIManager' object has no attribute'' ('''AIManager' object has no attribute 'foo'' @ [CHR 0x27])
   \<and> identify_recovery_strategy ('''AIManager' object has no attribute 'foo'' @ [CHR 0x27])
        ''AttributeError'' None = Some ''ai_manager_fallback''"
proof -
  have h: "sublist '''AIManager' object has no attribute'' ('''AIManager' object has no attribute 'foo'' @ [CHR 0x27])"
    by code_simp
  from ai_manager_rule_precedes_missing_method [OF h, of "''AttributeError''" None] h
  show ?thesis by simp
qed

section \<open>Properties of the validation engine\<close>

subsection \<open>Arithmetic of the scores\<close>

lemma pct_le_100:
  assumes "v \<le> n" "0 < n"
  shows "(of_nat v :: rat) / of_nat n * 100 \<le> 100"
proof -
  have "(of_nat v :: rat) \<le> of_nat n" using assms by simp
  moreover have "(0::rat) < of_nat n" using assms by simp
  ultimately have "(of_nat v :: rat) / of_nat n \<le> 1" by (simp add: divide_le_eq_1)
  then have "(of_nat v :: rat) / of_nat n * 100 \<le> 1 * 100"
    by (intro mult_right_mono) simp_all
  then show ?thesis by simp
qed

lemma pct_nonneg: "0 \<le> (of_nat v :: rat) / of_nat n * 100"
  by simp

lemma count_valid_drivers_bounds:
  "count_valid_drivers xs acc = Inr v \<Longrightarrow> acc \<le> v \<and> v \<le> acc + length xs"
proof (induction xs arbitrary: acc)
  case Nil then show ?case by simp
next
  case (Cons x xs)
  then show ?case by (fastforce split: sum.splits if_splits)
qed

lemma count_valid_drivers_append:
  "count_valid_drivers (xs @ ys) acc =
     (case count_valid_drivers xs acc of Inl e \<Rightarrow> Inl e | Inr a \<Rightarrow> count_valid_drivers ys a)"
  by (induction xs arbitrary: acc) (auto split: sum.splits)

lemma mental_drivers_score_bounds:
  assumes "v \<le> n"
  shows "0 \<le> mental_drivers_score n v \<and> mental_drivers_score n v \<le> 100"
proof (cases "0 < n")
  case True
  have "0 \<le> min ((of_nat n :: rat) / 19 * 100) 100" "min ((of_nat n :: rat) / 19 * 100) 100 \<le> 100"
    by simp_all
  with pct_le_100[OF assms True] pct_nonneg[of v n] True show ?thesis
    unfolding mental_drivers_score_def Let_def by simp
next
  case False
  then show ?thesis unfolding mental_drivers_score_def Let_def by simp
qed

lemma py_len_iter:
  "py_len x = Inr n \<Longrightarrow> \<exists>items. py_iter x = Inr items \<and> length items = n"
  by (cases x) auto

lemma new_validation_score: "score new_validation = 0"
  by (simp add: new_validation_def)

lemma score_add_critical: "score (add_critical m v) = score v"
  by (simp add: add_critical_def)

lemma score_add_warning: "score (add_warning m v) = score v"
  by (simp add: add_warning_def)

lemma score_on_error: "score (on_error l e v) = score v"
  by (simp add: on_error_def add_critical_def)

lemmas score_simps = new_validation_score score_add_critical score_add_warning score_on_error

lemma validate_mental_drivers_bounds:
  "\<exists>v. validate_mental_drivers d f = Inr v \<and> 0 \<le> score v \<and> score v \<le> 100"
proof (cases "py_get d ''drivers_customizados'' (PList [])")
  case (Inl e)
  then show ?thesis by (simp add: validate_mental_drivers_def score_simps)
next
  case (Inr drivers_list)
  show ?thesis
  proof (cases "truthy drivers_list")
    case False
    with Inr show ?thesis by (simp add: validate_mental_drivers_def score_simps)
  next
    case True
    show ?thesis
    proof (cases "py_len drivers_list")
      case (Inl e)
      with Inr True show ?thesis by (simp add: validate_mental_drivers_def score_simps)
    next
      case len: (Inr n)
      from py_len_iter[OF len] obtain items where it: "py_iter drivers_list = Inr items" "length items = n"
        by blast
      show ?thesis
      proof (cases "count_valid_drivers items 0")
        case (Inl e)
        with Inr True len it show ?thesis
          by (simp add: validate_mental_drivers_def score_simps Let_def)
      next
        case cnt: (Inr v)
        from count_valid_drivers_bounds[OF cnt] it have "v \<le> n" by simp
        from mental_drivers_score_bounds[OF this] Inr True len it cnt show ?thesis
          by (simp add: validate_mental_drivers_def score_simps Let_def)
      qed
    qed
  qed
qed

lemma visual_proofs_score_bounds:
  assumes "v \<le> n" "c \<le> n"
  shows "0 \<le> visual_proofs_score n v c \<and> visual_proofs_score n v c \<le> 100"
proof (cases "0 < n")
  case True
  have q: "(if n \<ge> 5 then 100 else if n \<ge> 3 then 80 else of_nat n * 20 :: rat) \<le> 100"
    "0 \<le> (if n \<ge> 5 then 100 else if n \<ge> 3 then 80 else of_nat n * 20 :: rat)"
    by auto
  from pct_le_100[OF assms(1) True] pct_le_100[OF assms(2) True] pct_nonneg[of v n] pct_nonneg[of c n] q True
  show ?thesis unfolding visual_proofs_score_def Let_def by simp
next
  case False
  then show ?thesis unfolding visual_proofs_score_def Let_def by simp
qed

lemma validate_visual_proofs_bounds:
  "\<exists>v. validate_visual_proofs d f = Inr v \<and> 0 \<le> score v \<and> score v \<le> 100"
proof -
  define provis_list where "provis_list =
        (case d of
           PList xs \<Rightarrow> PList xs
         | PDict m \<Rightarrow>
             py_or (py_or (dict_get m ''arsenal_provis_completo'' (PList []))
                          (dict_get m ''provas_visuais'' (PList [])))
                   (dict_get m ''visual_proofs'' (PList []))
         | _ \<Rightarrow> PList [])"
  show ?thesis
  proof (cases "py_len provis_list")
    case (Inl e)
    then show ?thesis unfolding validate_visual_proofs_def provis_list_def[symmetric] Let_def
      by (simp add: score_simps)
  next
    case len: (Inr n)
    from py_len_iter[OF len] obtain items where it: "py_iter provis_list = Inr items" "length items = n"
      by blast
    have "length (filter provi_is_valid items) \<le> n" "length (filter provi_is_complete items) \<le> n"
      using it by (auto simp: length_filter_le)
    from visual_proofs_score_bounds[OF this] len it show ?thesis
      unfolding validate_visual_proofs_def provis_list_def[symmetric] Let_def
      by (simp add: score_simps)
  qed
qed

lemma missing_keys_total:
  "py_len u = Inr n \<Longrightarrow> \<exists>ms. missing_keys reqs u = Inr ms"
  by (induction reqs) (cases u; auto)+

lemma validate_anti_objection_score:
  "\<exists>v. validate_anti_objection d f = Inr v \<and>
       score v = (case anti_objection_counts d of
                    None \<Rightarrow> 0
                  | Some (nu, ns, na) \<Rightarrow>
                      (min (of_nat nu / 3 * 100) 100 + min (of_nat ns / 3 * 100) 100
                       + min (of_nat na / 8 * 100) 100) / 3)"
proof (cases "py_get d ''objecoes_universais'' (PDict [])")
  case (Inl e)
  then show ?thesis
    by (simp add: validate_anti_objection_def anti_objection_counts_def score_simps)
next
  case u: (Inr universais)
  show ?thesis
  proof (cases "py_len universais")
    case (Inl e)
    with u show ?thesis
      by (simp add: validate_anti_objection_def anti_objection_counts_def score_simps)
  next
    case nu: (Inr universais_count)
    from missing_keys_total[OF nu] obtain ms where ms: "missing_keys required_universals universais = Inr ms"
      by blast
    have cov: "(if universais_count \<le> 3 then of_nat universais_count / 3 * 100 else (100::rat))
                = min (of_nat universais_count / 3 * 100) 100"
      by (auto simp: min_def)
    from u nu ms cov show ?thesis
      by (auto simp: validate_anti_objection_def anti_objection_counts_def anti_objection_score_def
            score_simps Let_def split: sum.splits)
  qed
qed

lemma avg3_upper:
  fixes a b c :: rat
  assumes "a \<le> 100" "b \<le> 100" "c \<le> 100"
  shows "(a + b + c) / 3 \<le> 100"
  using assms by simp

lemma avg3_lower:
  fixes a b c :: rat
  assumes "0 \<le> a" "0 \<le> b" "0 \<le> c"
  shows "0 \<le> (a + b + c) / 3"
  using assms by simp

lemma avg4_bounds:
  fixes a b c d :: rat
  assumes "0 \<le> a" "a \<le> 100" "0 \<le> b" "b \<le> 100" "0 \<le> c" "c \<le> 100" "0 \<le> d" "d \<le> 100"
  shows "0 \<le> (a + b + c + d) / 4 \<and> (a + b + c + d) / 4 \<le> 100"
  using assms by simp

lemma avatar_score_bounds:
  "0 \<le> avatar_score a b c d \<and> avatar_score a b c d \<le> 100"
proof -
  have "0 \<le> min ((of_nat a :: rat) / 15 * 100) 100" "min ((of_nat a :: rat) / 15 * 100) 100 \<le> 100"
    "0 \<le> min ((of_nat b :: rat) / 15 * 100) 100" "min ((of_nat b :: rat) / 15 * 100) 100 \<le> 100"
    "0 \<le> min ((of_nat c :: rat) / 7 * 100) 100" "min ((of_nat c :: rat) / 7 * 100) 100 \<le> 100"
    "0 \<le> min ((of_nat d :: rat) / 8 * 100) 100" "min ((of_nat d :: rat) / 8 * 100) 100 \<le> 100"
    by simp_all
  then show ?thesis unfolding avatar_score_def Let_def by (rule avg4_bounds)
qed

lemma anti_objection_score_bounds:
  "0 \<le> anti_objection_score a b c \<and> anti_objection_score a b c \<le> 100"
proof -
  have "0 \<le> (if a \<le> 3 then of_nat a / 3 * 100 else (100::rat))"
    "(if a \<le> 3 then of_nat a / 3 * 100 else (100::rat)) \<le> 100"
    "0 \<le> min ((of_nat b :: rat) / 3 * 100) 100" "min ((of_nat b :: rat) / 3 * 100) 100 \<le> 100"
    "0 \<le> min ((of_nat c :: rat) / 8 * 100) 100" "min ((of_nat c :: rat) / 8 * 100) 100 \<le> 100"
    by simp_all
  then show ?thesis unfolding anti_objection_score_def Let_def
    using avg3_upper avg3_lower by blast
qed

lemma validate_anti_objection_bounds:
  "\<exists>v. validate_anti_objection d f = Inr v \<and> 0 \<le> score v \<and> score v \<le> 100"
  using anti_objection_score_bounds
  by (auto simp: validate_anti_objection_def score_simps Let_def split: sum.splits)

lemma validate_avatar_bounds:
  "\<exists>v. validate_avatar d f = Inr v \<and> 0 \<le> score v \<and> score v \<le> 100"
  using avatar_score_bounds
  by (auto simp: validate_avatar_def score_simps Let_def split: sum.splits)

lemma forensic_score_upper: "forensic_score a c e \<le> 100"
proof -
  have "min (a / 20 * 100) 100 \<le> 100"
    "min ((of_nat c :: rat) / 6 * 100) 100 \<le> 100"
    "min ((of_nat e :: rat) / 4 * 100) 100 \<le> 100"
    by simp_all
  then show ?thesis unfolding forensic_score_def Let_def by (rule avg3_upper)
qed

lemma forensic_score_lower: "0 \<le> a \<Longrightarrow> 0 \<le> forensic_score a c e"
proof -
  assume "0 \<le> a"
  then have "0 \<le> min (a / 20 * 100) 100"
    "0 \<le> min ((of_nat c :: rat) / 6 * 100) 100"
    "0 \<le> min ((of_nat e :: rat) / 4 * 100) 100"
    by simp_all
  then show ?thesis unfolding forensic_score_def Let_def by (rule avg3_lower)
qed

lemma validate_forensic_metrics_bounds:
  "\<exists>v. validate_forensic_metrics d f = Inr v \<and> score v \<le> 100
       \<and> (\<not> argumentos_negative d \<longrightarrow> 0 \<le> score v)"
  using forensic_score_upper forensic_score_lower
  by (auto simp: validate_forensic_metrics_def argumentos_negative_def argumentos_totais_of_def
        score_simps Let_def split: sum.splits option.splits)

lemma mental_drivers_score_mono:
  assumes "v \<le> n" "0 < n"
  shows "mental_drivers_score n v \<le> mental_drivers_score (Suc n) (Suc v)"
proof -
  have n0: "(0::rat) < of_nat n" using assms by simp
  have "(of_nat v :: rat) \<le> of_nat n" using assms by simp
  then have "(of_nat v :: rat) * of_nat (Suc n) \<le> of_nat (Suc v) * of_nat n"
    by (simp add: algebra_simps)
  then have ratio: "(of_nat v :: rat) / of_nat n \<le> of_nat (Suc v) / of_nat (Suc n)"
    using n0 by (simp add: divide_le_eq pos_le_divide_eq field_simps)
  have quantity: "min ((of_nat n :: rat) / 19 * 100) 100 \<le> min (of_nat (Suc n) / 19 * 100) 100"
    by (simp add: min_def)
  from ratio have quality: "(of_nat v :: rat) / of_nat n * 100 \<le> of_nat (Suc v) / of_nat (Suc n) * 100"
    by (intro mult_right_mono) simp_all
  have before: "mental_drivers_score n v
                  = (min ((of_nat n :: rat) / 19 * 100) 100 + of_nat v / of_nat n * 100) / 2"
    using assms(2) by (simp add: mental_drivers_score_def Let_def)
  have after: "mental_drivers_score (Suc n) (Suc v)
                 = (min ((of_nat (Suc n) :: rat) / 19 * 100) 100 + of_nat (Suc v) / of_nat (Suc n) * 100) / 2"
    by (simp add: mental_drivers_score_def Let_def)
  show ?thesis
    unfolding before after by (intro divide_right_mono add_mono quantity quality) simp
qed

lemma dict_update_get:
  "py_get (PDict (AList.update k v m)) k dflt = Inr v"
  by (simp add: update_conv')

subsection \<open>The aggregate verdict\<close>

lemma validate_with_overall_valid:
  "case validate_with rules now_iso a of
     Inr r \<Rightarrow> overall_valid r = (quality_score r \<ge> 80 \<and> critical_issues r = [])
   | Inl e \<Rightarrow> check_scientific_compliance a = Inl e"
  by (simp add: validate_with_def Let_def split: prod.splits sum.splits)

lemma empty_record_result:
  "\<exists>r. validate_complete_analysis now_iso (PDict []) = Inr r
       \<and> \<not> overall_valid r \<and> critical_issues r \<noteq> [] \<and> quality_score r = 0"
  by (simp add: validate_complete_analysis_def validate_with_def validation_rules_def
        validate_mental_drivers_def validate_visual_proofs_def validate_anti_objection_def
        validate_avatar_def validate_forensic_metrics_def check_scientific_compliance_def
        get_component_weight_def add_critical_def add_warning_def new_validation_def
        required_universals_def anti_objection_score_def avatar_score_def py_or_def
        get_or_get_def dict_get_def on_error_def Let_def)

lemma critical_issues_are_collected:
  assumes "validate_complete_analysis now_iso (PDict m) = Inr r"
  shows "critical_issues r = concat (map (\<lambda>(component_name, v). critical_issues v) (component_validations r))"
proof -
  let ?a = "PDict m"
  obtain v1 where v1: "validate_mental_drivers (dict_get m ''drivers_mentais'' (PDict [])) ?a = Inr v1"
    using validate_mental_drivers_bounds by blast
  obtain v2 where v2: "validate_visual_proofs (dict_get m ''provas_visuais'' (PDict [])) ?a = Inr v2"
    using validate_visual_proofs_bounds by blast
  obtain v3 where v3: "validate_anti_objection (dict_get m ''sistema_anti_objecao'' (PDict [])) ?a = Inr v3"
    using validate_anti_objection_bounds by blast
  obtain v4 where v4: "validate_avatar (dict_get m ''avatar_ultra_detalhado'' (PDict [])) ?a = Inr v4"
    using validate_avatar_bounds by blast
  obtain v5 where v5: "validate_forensic_metrics (dict_get m ''metricas_forenses'' (PDict [])) ?a = Inr v5"
    using validate_forensic_metrics_bounds by blast
  have get: "py_get ?a k (PDict []) = Inr (dict_get m k (PDict []))" for k
    by (simp add: dict_get_def)
  from assms show ?thesis
    by (auto simp: validate_complete_analysis_def validate_with_def validation_rules_def get v1 v2 v3 v4 v5
          Let_def simp del: py_get.simps split: sum.splits)
qed

text \<open>
  C1. For every analysis record on which \<open>validate_complete_analysis\<close> returns, the result
  has \<open>overall_valid\<close> true exactly when its \<open>quality_score\<close> is at least 80 and its
  \<open>critical_issues\<close>, collected over the components (\<open>critical_issues_are_collected\<close>),
  is empty. The only way not to return is an exception of the compliance check, which
  runs after the verdict.
\<close>

theorem overall_valid_iff_score_and_no_critical_issues:
  "case validate_complete_analysis now_iso analysis_data of
     Inr r \<Rightarrow> overall_valid r = (quality_score r \<ge> 80 \<and> critical_issues r = [])
   | Inl e \<Rightarrow> check_scientific_compliance analysis_data = Inl e"
  unfolding validate_complete_analysis_def by (rule validate_with_overall_valid)

theorem overall_valid_iff_score_and_no_critical_issues_witness:
  "\<exists>r. validate_complete_analysis ''2026-11-04T12:25:00'' (PDict []) = Inr r
     \<and> overall_valid r = (quality_score r \<ge> 80 \<and> critical_issues r = [])"
  using overall_valid_iff_score_and_no_critical_issues
          [where now_iso = "''2026-11-04T12:25:00''" and analysis_data = "PDict []"]
    empty_record_result [of "''2026-11-04T12:25:00''"]
  by auto

text \<open>
  C9. On the empty record \<open>{}\<close> the aggregator returns \<open>overall_valid\<close> false, a non-empty
  list of critical issues and a quality score of exactly 0.
\<close>

theorem empty_record_is_invalid:
  "\<exists>r. validate_complete_analysis now_iso (PDict []) = Inr r
     \<and> overall_valid r = False \<and> critical_issues r \<noteq> [] \<and> quality_score r = 0"
  using empty_record_result [of now_iso] by simp

subsection \<open>Bounds of the component scores\<close>




subsection \<open>The anti-objection score\<close>

text \<open>
  C5, as the code has it. The anti-objection score is the unweighted average of three
  sub-scores, each a ratio capped at 100: the number of entries of \<open>objecoes_universais\<close>
  (whatever their keys) over 3, the number of scripts over 3, the size of the arsenal over
  8. When one of the three cannot be read or has no length, the score is 0.
\<close>

theorem anti_objection_score_averages_lengths:
  "\<exists>v. validate_anti_objection anti_obj_data full_analysis = Inr v \<and>
       score v = (case anti_objection_counts anti_obj_data of
                    None \<Rightarrow> 0
                  | Some (universais_count, scripts_count, arsenal_count) \<Rightarrow>
                      (min (of_nat universais_count / 3 * 100) 100
                       + min (of_nat scripts_count / 3 * 100) 100
                       + min (of_nat arsenal_count / 8 * 100) 100) / 3)"
  by (rule validate_anti_objection_score)

theorem anti_objection_score_averages_lengths_witness:
  "\<exists>v. validate_anti_objection
          (PDict [(''objecoes_universais'', PDict [(''tempo'', PStr ''sem tempo''), (''preco'', PStr ''caro'')]),
                  (''scripts_personalizados'', PDict [(''abertura'', PStr ''script'')]),
                  (''arsenal_emergencia'', PList [PStr ''a'', PStr ''b''])]) (PDict []) = Inr v
     \<and> score v = (200 / 3 + 100 / 3 + 25) / 3"
  using anti_objection_score_averages_lengths
          [where anti_obj_data =
                   "PDict [(''objecoes_universais'', PDict [(''tempo'', PStr ''sem tempo''), (''preco'', PStr ''caro'')]),
                           (''scripts_personalizados'', PDict [(''abertura'', PStr ''script'')]),
                           (''arsenal_emergencia'', PList [PStr ''a'', PStr ''b''])]"
             and full_analysis = "PDict []"]
  by (simp add: anti_objection_counts_def)

text \<open>
  The claim as stated fails: three universals that are none of \<open>tempo\<close>, \<open>dinheiro\<close>,
  \<open>confianca\<close> give full coverage in the code and none in the claim's formula.
\<close>

theorem anti_objection_coverage_counterexample:
  "\<exists>v. validate_anti_objection
          (PDict [(''objecoes_universais'',
                   PDict [(''preco'', PStr ''caro''), (''prazo'', PStr ''longo''), (''risco'', PStr ''alto'')])])
          (PDict []) = Inr v
     \<and> score v = 100 / 3
     \<and> anti_objection_score_as_specified
          (PDict [(''objecoes_universais'',
                   PDict [(''preco'', PStr ''caro''), (''prazo'', PStr ''longo''), (''risco'', PStr ''alto'')])]) = 0
     \<and> score v \<noteq> anti_objection_score_as_specified
          (PDict [(''objecoes_universais'',
                   PDict [(''preco'', PStr ''caro''), (''prazo'', PStr ''longo''), (''risco'', PStr ''alto'')])])"
  by (simp add: validate_anti_objection_def anti_objection_score_as_specified_def anti_objection_counts_def
        anti_objection_score_def required_universals_def add_critical_def add_warning_def
        new_validation_def Let_def)

subsection \<open>Monotonicity of the mental-drivers score\<close>

text \<open>
  C8, as the code has it. Appending to \<open>drivers_customizados\<close> one more driver that passes
  the quality check (a mapping with a non-empty \<open>nome\<close> and a \<open>definicao_visceral\<close> longer
  than 50 characters), everything else unchanged, never decreases the mental-drivers
  score, below the target of 19 drivers and above it.
\<close>

theorem appending_valid_driver_is_monotone:
  assumes "map_of m ''drivers_customizados'' = Some (PList xs)"
    and "driver_is_valid x = Inr True"
  shows "\<exists>v v'. validate_mental_drivers (PDict m) f = Inr v
           \<and> validate_mental_drivers
                 (PDict (AList.update ''drivers_customizados'' (PList (xs @ [x])) m)) f = Inr v'
           \<and> score v \<le> score v'"
proof -
  have after_get: "py_get (PDict (AList.update ''drivers_customizados'' (PList (xs @ [x])) m))
                     ''drivers_customizados'' (PList []) = Inr (PList (xs @ [x]))"
    by (rule dict_update_get)
  have before_get: "py_get (PDict m) ''drivers_customizados'' (PList []) = Inr (PList xs)"
    using assms(1) by simp
  show ?thesis
  proof (cases "count_valid_drivers xs 0")
    case (Inl e)
    then have "count_valid_drivers (xs @ [x]) 0 = Inl e"
      by (simp add: count_valid_drivers_append)
    with Inl before_get after_get show ?thesis
      by (cases xs) (simp_all add: validate_mental_drivers_def score_simps Let_def del: py_get.simps)
  next
    case (Inr valid_drivers)
    then have after_count: "count_valid_drivers (xs @ [x]) 0 = Inr (Suc valid_drivers)"
      using assms(2) by (simp add: count_valid_drivers_append)
    from count_valid_drivers_bounds[OF Inr] have le: "valid_drivers \<le> length xs" by simp
    show ?thesis
    proof (cases "xs = []")
      case True
      with Inr have "valid_drivers = 0" by simp
      with True mental_drivers_score_bounds[of 1 1] before_get after_get after_count show ?thesis
        by (simp add: validate_mental_drivers_def score_simps Let_def del: py_get.simps)
    next
      case False
      then have "0 < length xs" by simp
      from mental_drivers_score_mono[OF le this] False Inr before_get after_get after_count show ?thesis
        by (simp add: validate_mental_drivers_def score_simps Let_def del: py_get.simps)
    qed
  qed
qed

theorem appending_valid_driver_is_monotone_witness:
  "map_of [(''drivers_customizados'', PList [])] ''drivers_customizados'' = Some (PList [])
   \<and> driver_is_valid (PDict [(''nome'', PStr ''Urgencia''),
                              (''definicao_visceral'', PStr (replicate 51 (CHR ''x'')))]) = Inr True
   \<and> (\<exists>v v'. validate_mental_drivers (PDict [(''drivers_customizados'', PList [])]) (PDict []) = Inr v
         \<and> validate_mental_drivers
             (PDict [(''drivers_customizados'',
                      PList [PDict [(''nome'', PStr ''Urgencia''),
                                    (''definicao_visceral'', PStr (replicate 51 (CHR ''x'')))]])])
             (PDict []) = Inr v'
         \<and> score v \<le> score v')"
proof -
  have h1: "map_of [(''drivers_customizados'', PList [])] ''drivers_customizados'' = Some (PList [])"
    by simp
  have h2: "driver_is_valid (PDict [(''nome'', PStr ''Urgencia''),
                                    (''definicao_visceral'', PStr (replicate 51 (CHR ''x'')))]) = Inr True"
    by (simp add: driver_is_valid_def dict_get_def)
  from appending_valid_driver_is_monotone [OF h1 h2, where f = "PDict []"] h1 h2
  show ?thesis by simp
qed

text \<open>
  The claim as stated fails: one valid driver scores \<open>1000/19\<close>; with an empty mapping
  appended as a second driver the score drops to \<open>575/19\<close>.
\<close>

theorem appending_driver_counterexample:
  "\<exists>v v'. validate_mental_drivers
             (PDict [(''drivers_customizados'',
                      PList [PDict [(''nome'', PStr ''Urgencia''),
                                    (''definicao_visceral'', PStr (replicate 51 (CHR ''x'')))]])])
             (PDict []) = Inr v
     \<and> validate_mental_drivers
         (PDict [(''drivers_customizados'',
                  PList [PDict [(''nome'', PStr ''Urgencia''),
                                (''definicao_visceral'', PStr (replicate 51 (CHR ''x'')))],
                         PDict []])])
         (PDict []) = Inr v'
     \<and> score v = 1000 / 19 \<and> score v' = 575 / 19 \<and> score v' < score v"
  by (simp add: validate_mental_drivers_def driver_is_valid_def dict_get_def mental_drivers_score_def
        add_critical_def new_validation_def Let_def)

section \<open>Properties of the error recovery\<close>

lemma strategies_never_raise:
  "\<exists>r. recover_ai_manager w error ctx cn = Inr r"
  "\<exists>r. recover_missing_method error ctx cn = Inr r"
  "\<exists>r. recover_data_structure error ctx cn = Inr r"
  "\<exists>r. recover_component_failure error ctx cn = Inr r"
  "\<exists>r. recover_validation_failure error ctx cn = Inr r"
  by (auto simp: recover_ai_manager_def recover_missing_method_def recover_data_structure_def
        recover_component_failure_def recover_validation_failure_def emergency_recovery_def
        split: sum.splits option.splits)





section \<open>Properties of the auto-fixer\<close>

subsection \<open>Runs on small stores\<close>

lemmas store_ops = h_copy_def obj_of_def deref_def alloc_def append_new_def h_contains_def h_getitem_def h_is_dict_def
  h_len_def h_append_def h_setitem_def h_get_or_new_def h_values_def h_update_def is_zero_def

lemmas auto_fix_defs = auto_fix_common_errors_def auto_fix_try_def fix_drivers_def fix_provas_def
  fix_cialdini_def fix_metadata_def pad_to.simps

lemma auto_fix_run_drivers:
  "auto_fix_common_errors now_iso
     [ODict [(''drivers_mentais_customizados'', HRef 1)], ODict [(''drivers_customizados'', HRef 2)], OList []]
     (HRef 0)
   = Inr (AutoFixed (HRef 4) (HRef 3) 2,
          [ODict [(''drivers_mentais_customizados'', HRef 1)],
           ODict [(''drivers_customizados'', HRef 2)],
           OList [HRef 5, HRef 6, HRef 7],
           ODict [(''drivers_mentais_customizados'', HRef 1), (''metadata'', HRef 8)],
           OList [HStr ''drivers_mentais_minimum'', HStr ''metadata_added''],
           ODict (basic_driver 1), ODict (basic_driver 2), ODict (basic_driver 3),
           ODict [(''auto_fixed'', HBool True), (''fixes_applied'', HRef 4), (''fixed_at'', HStr now_iso),
                  (''quality_score'', HFloat 75), (''validation_status'', HStr ''auto_fixed'')]])"
  by (simp add: auto_fix_defs store_ops Let_def eval_nat_numeral)

lemma auto_fix_run_failure:
  "auto_fix_common_errors now_iso
     [ODict [(''drivers_mentais_customizados'', HRef 1), (''metricas_forenses_detalhadas'', HRef 3)],
      ODict [(''drivers_customizados'', HRef 2)], OList [],
      ODict [(''densidade_persuasiva'', HStr ''alta'')]]
     (HRef 0)
   = Inr (AutoFixFailed AttributeError (HRef 0),
          [ODict [(''drivers_mentais_customizados'', HRef 1), (''metricas_forenses_detalhadas'', HRef 3)],
           ODict [(''drivers_customizados'', HRef 2)],
           OList [HRef 6, HRef 7, HRef 8],
           ODict [(''densidade_persuasiva'', HStr ''alta'')],
           ODict [(''drivers_mentais_customizados'', HRef 1), (''metricas_forenses_detalhadas'', HRef 3)],
           OList [HStr ''drivers_mentais_minimum''],
           ODict (basic_driver 1), ODict (basic_driver 2), ODict (basic_driver 3)])"
  by (simp add: auto_fix_defs store_ops Let_def eval_nat_numeral)



lemma auto_fix_failure_keeps_reference:
  "auto_fix_common_errors now_iso h analysis_data = Inr (r, h') \<Longrightarrow> \<not> auto_fix_successful r
   \<Longrightarrow> \<exists>e. r = AutoFixFailed e analysis_data"
  by (auto simp: auto_fix_common_errors_def auto_fix_successful_def Let_def
        split: sum.splits prod.splits)

text \<open>
  C3. The copy \<open>auto_fix_common_errors\<close> works on is shallow, so the claim fails on the
  code: the caller's record \<open>{'drivers_mentais_customizados': {'drivers_customizados': []}}\<close>,
  read back after a successful call, has three drivers in its nested list.
\<close>

theorem auto_fix_pads_the_callers_own_list:
  "\<exists>r h'. auto_fix_common_errors now_iso
             [ODict [(''drivers_mentais_customizados'', HRef 1)],
              ODict [(''drivers_customizados'', HRef 2)], OList []]
             (HRef 0) = Inr (r, h')
     \<and> auto_fix_successful r
     \<and> read_back 4 [ODict [(''drivers_mentais_customizados'', HRef 1)],
                     ODict [(''drivers_customizados'', HRef 2)], OList []] (HRef 0)
         = Some (PDict [(''drivers_mentais_customizados'', PDict [(''drivers_customizados'', PList [])])])
     \<and> (\<exists>xs. read_back 4 h' (HRef 0)
               = Some (PDict [(''drivers_mentais_customizados'', PDict [(''drivers_customizados'', PList xs)])])
             \<and> length xs = 3)"
proof -
  let ?h' = "[ODict [(''drivers_mentais_customizados'', HRef 1)],
           ODict [(''drivers_customizados'', HRef 2)],
           OList [HRef 5, HRef 6, HRef 7],
           ODict [(''drivers_mentais_customizados'', HRef 1), (''metadata'', HRef 8)],
           OList [HStr ''drivers_mentais_minimum'', HStr ''metadata_added''],
           ODict (basic_driver 1), ODict (basic_driver 2), ODict (basic_driver 3),
           ODict [(''auto_fixed'', HBool True), (''fixes_applied'', HRef 4), (''fixed_at'', HStr now_iso),
                  (''quality_score'', HFloat 75), (''validation_status'', HStr ''auto_fixed'')]]"
  have before: "read_back 4 [ODict [(''drivers_mentais_customizados'', HRef 1)],
                     ODict [(''drivers_customizados'', HRef 2)], OList []] (HRef 0)
         = Some (PDict [(''drivers_mentais_customizados'', PDict [(''drivers_customizados'', PList [])])])"
    by (simp add: deref_def eval_nat_numeral)
  have after: "\<exists>xs. read_back 4 ?h' (HRef 0)
               = Some (PDict [(''drivers_mentais_customizados'', PDict [(''drivers_customizados'', PList xs)])])
             \<and> length xs = 3"
    by (simp add: deref_def basic_driver_def eval_nat_numeral)
  have ok: "auto_fix_successful (AutoFixed (HRef 4) (HRef 3) 2)"
    by (simp add: auto_fix_successful_def)
  from auto_fix_run_drivers [of now_iso] ok before after show ?thesis by blast
qed

text \<open>
  C4. When a later fix raises, the record handed back as \<open>original_data\<close> is the caller's
  own object, and the fixes applied before the exception are visible in it: here the
  drivers are padded, then \<open>densidade.get\<close> raises on the string \<open>'alta'\<close>.
\<close>

theorem auto_fix_failure_returns_modified_original:
  "\<exists>h'. auto_fix_common_errors now_iso
           [ODict [(''drivers_mentais_customizados'', HRef 1), (''metricas_forenses_detalhadas'', HRef 3)],
            ODict [(''drivers_customizados'', HRef 2)], OList [],
            ODict [(''densidade_persuasiva'', HStr ''alta'')]]
           (HRef 0) = Inr (AutoFixFailed AttributeError (HRef 0), h')
     \<and> read_back 4 [ODict [(''drivers_mentais_customizados'', HRef 1), (''metricas_forenses_detalhadas'', HRef 3)],
                     ODict [(''drivers_customizados'', HRef 2)], OList [],
                     ODict [(''densidade_persuasiva'', HStr ''alta'')]] (HRef 0)
         = Some (PDict [(''drivers_mentais_customizados'', PDict [(''drivers_customizados'', PList [])]),
                        (''metricas_forenses_detalhadas'', PDict [(''densidade_persuasiva'', PStr ''alta'')])])
     \<and> (\<exists>xs. read_back 4 h' (HRef 0)
               = Some (PDict [(''drivers_mentais_customizados'', PDict [(''drivers_customizados'', PList xs)]),
                              (''metricas_forenses_detalhadas'', PDict [(''densidade_persuasiva'', PStr ''alta'')])])
             \<and> length xs = 3)"
proof -
  let ?h' = "[ODict [(''drivers_mentais_customizados'', HRef 1), (''metricas_forenses_detalhadas'', HRef 3)],
           ODict [(''drivers_customizados'', HRef 2)],
           OList [HRef 6, HRef 7, HRef 8],
           ODict [(''densidade_persuasiva'', HStr ''alta'')],
           ODict [(''drivers_mentais_customizados'', HRef 1), (''metricas_forenses_detalhadas'', HRef 3)],
           OList [HStr ''drivers_mentais_minimum''],
           ODict (basic_driver 1), ODict (basic_driver 2), ODict (basic_driver 3)]"
  have before: "read_back 4 [ODict [(''drivers_mentais_customizados'', HRef 1), (''metricas_forenses_detalhadas'', HRef 3)],
                     ODict [(''drivers_customizados'', HRef 2)], OList [],
                     ODict [(''densidade_persuasiva'', HStr ''alta'')]] (HRef 0)
         = Some (PDict [(''drivers_mentais_customizados'', PDict [(''drivers_customizados'', PList [])]),
                        (''metricas_forenses_detalhadas'', PDict [(''densidade_persuasiva'', PStr ''alta'')])])"
    by (simp add: deref_def eval_nat_numeral)
  have after: "\<exists>xs. read_back 4 ?h' (HRef 0)
               = Some (PDict [(''drivers_mentais_customizados'', PDict [(''drivers_customizados'', PList xs)]),
                              (''metricas_forenses_detalhadas'', PDict [(''densidade_persuasiva'', PStr ''alta'')])])
             \<and> length xs = 3"
    by (simp add: deref_def basic_driver_def eval_nat_numeral)
  from auto_fix_run_failure [of now_iso] before after show ?thesis by blast
qed

subsection \<open>What the padding fixes leave alone\<close>























subsection \<open>The Cialdini fix without a \<open>gatilhos_cialdini\<close> key\<close>



















end
